theory Spec2Isabelle
  imports Complex_Main "HOL-Library.Word"
begin

section \<open>Values, dictionaries and stored documents\<close>

text \<open>
  The program is a FastAPI application over a MongoDB database (main.py, schemas.py).
  Python values that occur in request bodies, stored documents and responses are the
  datatype \<open>val\<close>: what \<open>json.loads\<close> gives for a JSON text and what the driver gives for
  a stored field. A finite float is its exact rational value, so that the comparisons of
  the schema (\<open>ge=0\<close>, \<open>le=1\<close>) are exact; the program does no arithmetic on floats that
  the model follows. \<open>VInf\<close>, \<open>VNegInf\<close> and \<open>VNaN\<close> are the floats that are not finite:
  \<open>json.loads\<close> gives them for \<open>Infinity\<close>, \<open>-Infinity\<close>, \<open>NaN\<close> and for a number too
  large for a double, such as \<open>1e400\<close>. An ObjectId is written as the hexadecimal
  rendering of its bytes, lower case, which is what \<open>str\<close> returns for it: 24 digits
  for the 12 bytes of an ObjectId that the driver generates.
\<close>

type_synonym objectid = string

datatype val =
    VNone
  | VBool bool
  | VInt int
  | VFloat rat
  | VInf
  | VNegInf
  | VNaN
  | VStr string
  | VList "val list"
  | VDict "(string \<times> val) list"

text \<open>A Python dict keeps its keys in insertion order: an association list.\<close>

type_synonym dict = "(string \<times> val) list"

definition dict_get :: "dict \<Rightarrow> string \<Rightarrow> val option" where
  "dict_get d k = map_of d k"

text \<open>\<open>d[k] = v\<close>: the value of an existing key is replaced in place, a new key is appended.\<close>

fun dict_set :: "string \<Rightarrow> val \<Rightarrow> dict \<Rightarrow> dict" where
  "dict_set k v [] = [(k, v)]"
| "dict_set k v (p # ps) = (if fst p = k then (k, v) # ps else p # dict_set k v ps)"

text \<open>\<open>d.get(k)\<close> is None for a missing key; \<open>d.get(k, default)\<close> is the default.\<close>

definition get_or_none :: "dict \<Rightarrow> string \<Rightarrow> val" where
  "get_or_none d k = (case dict_get d k of None \<Rightarrow> VNone | Some v \<Rightarrow> v)"

definition get_or_default :: "dict \<Rightarrow> string \<Rightarrow> val \<Rightarrow> val" where
  "get_or_default d k dflt = (case dict_get d k of None \<Rightarrow> dflt | Some v \<Rightarrow> v)"

text \<open>
  A stored document is a dict whose \<open>_id\<close> entry is the ObjectId that the store assigned
  at insertion: no schema of the program has an \<open>_id\<close> field, so the driver always
  generates one. The record keeps that entry apart from the other fields.
\<close>

record document =
  doc_id :: objectid
  doc_fields :: dict

type_synonym collection = "document list"

text \<open>
  \<open>json.dumps(..., allow_nan=False)\<close>, with which the framework renders every JSON
  response, raises ValueError on a float that is not finite, at any depth.
\<close>

fun finite_val :: "val \<Rightarrow> bool" where
  "finite_val VInf = False"
| "finite_val VNegInf = False"
| "finite_val VNaN = False"
| "finite_val (VList vs) = list_all finite_val vs"
| "finite_val (VDict kvs) = list_all (\<lambda>p. finite_val (snd p)) kvs"
| "finite_val _ = True"

text \<open>
  BSON has integers of at most 64 bits: the driver raises OverflowError when it encodes
  a document that holds a larger one, at any depth.
\<close>

definition int64 :: "int \<Rightarrow> bool" where
  "int64 i = (- (2 ^ 63) \<le> i \<and> i < 2 ^ 63)"

fun bson_ok :: "val \<Rightarrow> bool" where
  "bson_ok (VInt i) = int64 i"
| "bson_ok (VList vs) = list_all bson_ok vs"
| "bson_ok (VDict kvs) = list_all (\<lambda>p. bson_ok (snd p)) kvs"
| "bson_ok _ = True"

section \<open>Helpers of main.py\<close>

text \<open>\<open>oid_str\<close> is \<open>str(value)\<close>; it is applied to the \<open>_id\<close> of a stored document only.\<close>

definition oid_str :: "objectid \<Rightarrow> string" where
  "oid_str v = v"

text \<open>
  \<open>doc_to_public\<close>: None is returned as it is (\<open>if not d: return d\<close>). A fetched
  document is never an empty dict and its \<open>_id\<close> is an ObjectId, which is truthy, so
  the copy loses \<open>_id\<close> (\<open>d.pop\<close>) and gets \<open>id\<close>, the string of the ObjectId.
\<close>

definition doc_to_public :: "document option \<Rightarrow> dict option" where
  "doc_to_public d =
     (case d of
        None \<Rightarrow> None
      | Some doc \<Rightarrow>
          Some (dict_set ''id'' (VStr (oid_str (doc_id doc)))
                  (filter (\<lambda>p. fst p \<noteq> ''_id'') (doc_fields doc))))"

section \<open>Application state\<close>

text \<open>
  The state is the module-level token set, the database (a collection for each name)
  and the two credentials read from the environment when the module is loaded. The
  database handle \<open>db\<close> is taken to be connected.
\<close>

record state =
  TOKENS :: "string set"
  db :: "string \<Rightarrow> collection"
  ADMIN_USERNAME :: string
  ADMIN_PASSWORD :: string

text \<open>
  A response is the JSON body of a handler that returned, an \<open>HTTPException\<close> with its
  status and detail, the framework's answer 422 to a request whose body or query fails
  validation, or the answer 500 to any other exception. \<open>Diagnostic\<close> is the status
  report of \<open>/test\<close>, which describes the environment and holds no document.
  \<open>NoRoute\<close> is the framework's own answer when no route matches. \<open>NotModelled\<close> is
  not an answer of the program: it marks a request whose outcome depends on something
  the model does not follow (a conversion by pydantic, the store's choice among documents
  that sort equal, a regular expression with operators), so that no statement is made
  about it.
\<close>

datatype body =
    BNull
  | BDict dict
  | BList "body list"

datatype response =
    Ok body
  | HTTPException nat string
  | RequestValidationError
  | ServerError
  | Diagnostic
  | NoRoute
  | NotModelled

fun status_code :: "response \<Rightarrow> nat option" where
  "status_code (Ok b) = Some 200"
| "status_code (HTTPException n detail) = Some n"
| "status_code RequestValidationError = Some 422"
| "status_code ServerError = Some 500"
| "status_code Diagnostic = Some 200"
| "status_code NoRoute = None"
| "status_code NotModelled = None"

definition body_of :: "dict option \<Rightarrow> body" where
  "body_of d = (case d of None \<Rightarrow> BNull | Some x \<Rightarrow> BDict x)"

definition require_admin :: "string option \<Rightarrow> state \<Rightarrow> response + bool" where
  "require_admin token s =
     (case token of
        None \<Rightarrow> Inl (HTTPException 401 ''Unauthorized'')
      | Some t \<Rightarrow>
          if t \<notin> TOKENS s then Inl (HTTPException 401 ''Unauthorized'') else Inr True)"

section \<open>Schemas (schemas.py and the request models of main.py)\<close>

text \<open>
  A pydantic model is a list of fields, each with its type and with what happens when
  the field is missing. \<open>TFloat ge le\<close> carries the bounds of \<open>Field(..., ge=0, le=1)\<close>.
  The values of a body are the JSON values as they were sent. For a field and a value
  there are three cases: the value has the type of the field and is taken as it is
  (\<open>has_type\<close>); pydantic may accept the value by converting it, or its verdict differs
  between versions of pydantic (\<open>may_convert\<close>), which the model does not follow; or the
  value is rejected.
\<close>

datatype ftype = TStr | TInt | TFloat "rat option" "rat option" | TStrList

text \<open>
  \<open>Required\<close> is \<open>Field(...)\<close>; \<open>Optional\<close> is \<open>Optional[T] = None\<close>, which also accepts
  an explicit null; \<open>Default v\<close> is a field of type \<open>T\<close> with a default, which does not.
\<close>

datatype presence = Required | Optional | Default val

type_synonym schema = "(string \<times> presence \<times> ftype) list"

fun is_str :: "val \<Rightarrow> bool" where
  "is_str (VStr s) = True"
| "is_str _ = False"

text \<open>
  A float field takes a JSON float, within the bounds when there are bounds; an infinite
  float passes a field only when the field has no bound on that side, and NaN only when
  it has no bound at all. An int field takes a JSON integer of at most 64 bits.
\<close>

definition in_bounds :: "rat option \<Rightarrow> rat option \<Rightarrow> rat \<Rightarrow> bool" where
  "in_bounds ge le r =
     ((case ge of None \<Rightarrow> True | Some g \<Rightarrow> g \<le> r) \<and>
      (case le of None \<Rightarrow> True | Some l \<Rightarrow> r \<le> l))"

fun has_type :: "ftype \<Rightarrow> val \<Rightarrow> bool" where
  "has_type TStr (VStr s) = True"
| "has_type TInt (VInt i) = int64 i"
| "has_type (TFloat ge le) (VFloat r) = in_bounds ge le r"
| "has_type (TFloat ge le) VInf = (le = None)"
| "has_type (TFloat ge le) VNegInf = (ge = None)"
| "has_type (TFloat ge le) VNaN = (ge = None \<and> le = None)"
| "has_type TStrList (VList vs) = list_all is_str vs"
| "has_type _ _ = False"

text \<open>
  The values that pydantic's lax mode may convert to the type of the field: a string, a
  boolean or a float for an int field; a string or a boolean for a float field, and an
  integer that is within the bounds (an integer outside them is rejected whatever its
  conversion). Two verdicts depend on the version of pydantic: an integer of more than 64
  bits for an int field, and NaN for a float field with bounds. A str field and a list
  field convert nothing that JSON can hold.
\<close>

fun may_convert :: "ftype \<Rightarrow> val \<Rightarrow> bool" where
  "may_convert TInt (VInt i) = (\<not> int64 i)"
| "may_convert TInt (VFloat r) = True"
| "may_convert TInt (VBool b) = True"
| "may_convert TInt (VStr s) = True"
| "may_convert (TFloat ge le) (VInt i) = in_bounds ge le (of_int i)"
| "may_convert (TFloat ge le) (VBool b) = True"
| "may_convert (TFloat ge le) (VStr s) = True"
| "may_convert (TFloat ge le) VNaN = (ge \<noteq> None \<or> le \<noteq> None)"
| "may_convert _ _ = False"

text \<open>
  The inputs that the errors of a rejected value quote: the value itself, and for a list
  the items that are not strings, each with its own error.
\<close>

fun rejected :: "ftype \<Rightarrow> val \<Rightarrow> val list" where
  "rejected TStrList (VList vs) = filter (\<lambda>v. \<not> is_str v) vs"
| "rejected ty v = [v]"

definition validate_field :: "string \<times> presence \<times> ftype \<Rightarrow> dict \<Rightarrow> val option" where
  "validate_field f b =
     (case f of (k, pres, ty) \<Rightarrow>
        (case dict_get b k of
           None \<Rightarrow>
             (case pres of Required \<Rightarrow> None | Optional \<Rightarrow> Some VNone | Default v \<Rightarrow> Some v)
         | Some VNone \<Rightarrow>
             (case pres of Optional \<Rightarrow> Some VNone | _ \<Rightarrow> None)
         | Some v \<Rightarrow> if has_type ty v then Some v else None))"

text \<open>
  \<open>validate sch b\<close> is the \<open>model_dump()\<close> of the validated model, every field of the
  schema in its order, when every field of the body is taken as it is; it is None
  otherwise. Keys of the body that the schema does not have are ignored.
\<close>

fun validate :: "schema \<Rightarrow> dict \<Rightarrow> dict option" where
  "validate [] b = Some []"
| "validate (f # fs) b =
     (case validate_field f b of
        None \<Rightarrow> None
      | Some v \<Rightarrow>
          (case validate fs b of None \<Rightarrow> None | Some d \<Rightarrow> Some ((fst f, v) # d)))"

text \<open>
  When validation fails, the framework answers 422 with the list of errors, and each
  error quotes its input: the whole body for a required field that is missing, the value
  for a value that is rejected. \<open>field_unknown\<close> is the value of a field when the model
  does not follow what pydantic makes of it.
\<close>

definition field_errors :: "string \<times> presence \<times> ftype \<Rightarrow> dict \<Rightarrow> val list" where
  "field_errors f b =
     (case f of (k, pres, ty) \<Rightarrow>
        (case dict_get b k of
           None \<Rightarrow> (case pres of Required \<Rightarrow> [VDict b] | _ \<Rightarrow> [])
         | Some v \<Rightarrow>
             if v = VNone then (case pres of Optional \<Rightarrow> [] | _ \<Rightarrow> [VNone])
             else if has_type ty v \<or> may_convert ty v then []
             else rejected ty v))"

definition field_unknown :: "string \<times> presence \<times> ftype \<Rightarrow> dict \<Rightarrow> val list" where
  "field_unknown f b =
     (case f of (k, pres, ty) \<Rightarrow>
        (case dict_get b k of
           None \<Rightarrow> []
         | Some v \<Rightarrow> if v \<noteq> VNone \<and> \<not> has_type ty v \<and> may_convert ty v then [v] else []))"

definition validation_errors :: "schema \<Rightarrow> dict \<Rightarrow> val list" where
  "validation_errors sch b = concat (map (\<lambda>f. field_errors f b) sch)"

definition unconverted :: "schema \<Rightarrow> dict \<Rightarrow> val list" where
  "unconverted sch b = concat (map (\<lambda>f. field_unknown f b) sch)"

text \<open>
  The answer to a body that is a JSON object and does not validate. With an error, it
  is 422, and 500 when an input quoted by an error is not finite, because the body of
  the 422 cannot be rendered then; a value that pydantic may convert changes nothing in
  that, its own error quoting a finite input. Without an error the outcome is pydantic's
  conversion, which is not modelled.
\<close>

definition invalid_body :: "schema \<Rightarrow> dict \<Rightarrow> response" where
  "invalid_body sch b =
     (if \<not> list_all finite_val (unconverted sch b) then NotModelled
      else if validation_errors sch b = [] then NotModelled
      else if list_all finite_val (validation_errors sch b) then RequestValidationError
      else ServerError)"

definition Category :: schema where
  "Category =
     [(''name'', Required, TStr),
      (''slug'', Required, TStr),
      (''description'', Optional, TStr)]"

definition LoreArticle :: schema where
  "LoreArticle =
     [(''title'', Required, TStr),
      (''short_description'', Required, TStr),
      (''main_image_url'', Optional, TStr),
      (''content_body'', Required, TStr),
      (''category_ids'', Default (VList []), TStrList),
      (''slug'', Optional, TStr)]"

definition POI :: schema where
  "POI =
     [(''name'', Required, TStr),
      (''x_coordinate'', Required, TFloat (Some 0) (Some 1)),
      (''y_coordinate'', Required, TFloat (Some 0) (Some 1)),
      (''icon_type'', Default (VStr ''marker''), TStr),
      (''lore_article_id'', Optional, TStr)]"

definition MapAsset :: schema where
  "MapAsset =
     [(''image_url'', Required, TStr),
      (''width'', Optional, TInt),
      (''height'', Optional, TInt),
      (''version'', Default (VInt 1), TInt)]"

definition AuthRequest :: schema where
  "AuthRequest = [(''username'', Required, TStr), (''password'', Required, TStr)]"

definition MapAssetUpdate :: schema where
  "MapAssetUpdate =
     [(''image_url'', Required, TStr), (''width'', Optional, TInt), (''height'', Optional, TInt)]"

definition POICreate :: schema where
  "POICreate = POI"

definition POIUpdate :: schema where
  "POIUpdate =
     [(''name'', Optional, TStr),
      (''x_coordinate'', Optional, TFloat None None),
      (''y_coordinate'', Optional, TFloat None None),
      (''icon_type'', Optional, TStr),
      (''lore_article_id'', Optional, TStr)]"

definition LoreCreate :: schema where
  "LoreCreate = LoreArticle"

definition LoreUpdate :: schema where
  "LoreUpdate =
     [(''title'', Optional, TStr),
      (''short_description'', Optional, TStr),
      (''main_image_url'', Optional, TStr),
      (''content_body'', Optional, TStr),
      (''category_ids'', Optional, TStrList),
      (''slug'', Optional, TStr)]"

definition CategoryCreate :: schema where
  "CategoryCreate = Category"

definition CategoryUpdate :: schema where
  "CategoryUpdate =
     [(''name'', Optional, TStr), (''slug'', Optional, TStr), (''description'', Optional, TStr)]"

section \<open>The store: ObjectId and the pymongo calls of main.py\<close>

definition is_hex :: "char \<Rightarrow> bool" where
  "is_hex c = (c \<in> set ''0123456789abcdefABCDEF'')"

definition hex_lower :: "char \<Rightarrow> char" where
  "hex_lower c =
     (case map_of (zip ''ABCDEF'' ''abcdef'') c of None \<Rightarrow> c | Some l \<Rightarrow> l)"

text \<open>
  \<open>bytes.fromhex(s)\<close>: pairs of hexadecimal digits, with any ASCII whitespace before,
  between and after the pairs; ValueError (None) for anything else. The result is
  written as the digits of the bytes, lower case.
\<close>

definition is_space :: "char \<Rightarrow> bool" where
  "is_space c = (c \<in> set [CHR '' '', CHR 0x09, CHR 0x0A, CHR 0x0B, CHR 0x0C, CHR 0x0D])"

fun fromhex :: "string \<Rightarrow> string option" where
  "fromhex [] = Some []"
| "fromhex [c] = (if is_space c then Some [] else None)"
| "fromhex (c # d # cs) =
     (if is_space c then fromhex (d # cs)
      else if is_hex c \<and> is_hex d
      then map_option (\<lambda>r. hex_lower c # hex_lower d # r) (fromhex cs)
      else None)"

text \<open>
  \<open>ObjectId(s)\<close> for a string, as bson defines it: the string has 24 characters and
  \<open>bytes.fromhex\<close> reads it; otherwise InvalidId (None). Two spellings that differ in
  case are the same ObjectId. A string of 24 characters with whitespace among them is
  accepted and gives fewer than 12 bytes, an id that no document of the store has.
\<close>

definition ObjectId :: "string \<Rightarrow> objectid option" where
  "ObjectId s = (if length s = 24 then fromhex s else None)"

text \<open>\<open>find_one({"_id": oid})\<close>\<close>

definition find_one :: "collection \<Rightarrow> objectid \<Rightarrow> document option" where
  "find_one c oid = find (\<lambda>d. doc_id d = oid) c"

text \<open>
  \<open>insert_one\<close> appends the document under the ObjectId the driver generated. It raises
  (None) when the document cannot be encoded (OverflowError) and when the ObjectId is
  already there, which the unique index on \<open>_id\<close> refuses (DuplicateKeyError).
\<close>

definition insert_one :: "collection \<Rightarrow> objectid \<Rightarrow> dict \<Rightarrow> collection option" where
  "insert_one c oid data =
     (if \<not> bson_ok (VDict data) then None
      else if oid \<in> set (map doc_id c) then None
      else Some (c @ [\<lparr>doc_id = oid, doc_fields = data\<rparr>]))"

text \<open>\<open>update_one({"_id": oid}, {"$set": upd})\<close>: the first match gets every pair of \<open>upd\<close>.\<close>

definition apply_set :: "dict \<Rightarrow> dict \<Rightarrow> dict" where
  "apply_set upd flds = fold (\<lambda>p. dict_set (fst p) (snd p)) upd flds"

fun update_one :: "collection \<Rightarrow> objectid \<Rightarrow> dict \<Rightarrow> collection" where
  "update_one [] oid upd = []"
| "update_one (d # ds) oid upd =
     (if doc_id d = oid then d\<lparr>doc_fields := apply_set upd (doc_fields d)\<rparr> # ds
      else d # update_one ds oid upd)"

text \<open>\<open>delete_one({"_id": oid})\<close>: the first match is removed, if there is one.\<close>

fun delete_one :: "collection \<Rightarrow> objectid \<Rightarrow> collection" where
  "delete_one [] oid = []"
| "delete_one (d # ds) oid = (if doc_id d = oid then ds else d # delete_one ds oid)"

text \<open>
  \<open>find_one(sort=[("version", -1)])\<close>: the first document in the descending order of
  the \<open>version\<close> field. MongoDB orders values of different types by type, a missing
  field as null, below the numbers, and the booleans above them; numbers are compared
  by value, NaN below every number. The key gives the rank and, for a number, its value.
  The routes write \<open>version\<close> as an integer only. The order of strings, lists and
  objects is not modelled (\<open>sortable\<close>), nor is the store's choice among several documents
  with the greatest key, which MongoDB leaves open (\<open>latest_modelled\<close>).
\<close>

fun sort_key :: "val option \<Rightarrow> nat \<times> rat" where
  "sort_key None = (1, 0)"
| "sort_key (Some VNone) = (1, 0)"
| "sort_key (Some VNaN) = (2, 0)"
| "sort_key (Some VNegInf) = (3, 0)"
| "sort_key (Some (VInt i)) = (4, of_int i)"
| "sort_key (Some (VFloat r)) = (4, r)"
| "sort_key (Some VInf) = (5, 0)"
| "sort_key (Some (VStr s)) = (6, 0)"
| "sort_key (Some (VDict kvs)) = (7, 0)"
| "sort_key (Some (VList vs)) = (8, 0)"
| "sort_key (Some (VBool b)) = (9, if b then 1 else 0)"

fun sortable :: "val option \<Rightarrow> bool" where
  "sortable (Some (VStr s)) = False"
| "sortable (Some (VDict kvs)) = False"
| "sortable (Some (VList vs)) = False"
| "sortable _ = True"

definition key_less :: "nat \<times> rat \<Rightarrow> nat \<times> rat \<Rightarrow> bool" where
  "key_less a b = (fst a < fst b \<or> (fst a = fst b \<and> snd a < snd b))"

definition version_key :: "document \<Rightarrow> nat \<times> rat" where
  "version_key d = sort_key (dict_get (doc_fields d) ''version'')"

fun find_one_latest :: "collection \<Rightarrow> document option" where
  "find_one_latest [] = None"
| "find_one_latest (d # ds) =
     (case find_one_latest ds of
        None \<Rightarrow> Some d
      | Some e \<Rightarrow> if key_less (version_key d) (version_key e) then Some e else Some d)"

definition latest_modelled :: "collection \<Rightarrow> bool" where
  "latest_modelled c =
     (list_all (\<lambda>d. sortable (dict_get (doc_fields d) ''version'')) c \<and>
      (case find_one_latest c of
         None \<Rightarrow> True
       | Some d \<Rightarrow> length (filter (\<lambda>e. version_key e = version_key d) c) = 1))"

text \<open>
  \<open>find({"$or": [{"title": {"$regex": q, "$options": "i"}}, ...]}).limit(20)\<close>. The
  query string is a regular expression. A pattern of letters, digits and spaces matches a
  string when it occurs in it, letters compared without case; a string field matches by
  its value and an array field by any of its strings. Other patterns are not modelled.
\<close>

definition plain_char :: "char \<Rightarrow> bool" where
  "plain_char c =
     (c \<in> set ''abcdefghijklmnopqrstuvwxyzABCDEFGHIJKLMNOPQRSTUVWXYZ0123456789 '')"

definition lower_char :: "char \<Rightarrow> char" where
  "lower_char c =
     (case map_of (zip ''ABCDEFGHIJKLMNOPQRSTUVWXYZ'' ''abcdefghijklmnopqrstuvwxyz'') c of
        None \<Rightarrow> c
      | Some l \<Rightarrow> l)"

fun starts_with :: "string \<Rightarrow> string \<Rightarrow> bool" where
  "starts_with [] t = True"
| "starts_with (c # cs) [] = False"
| "starts_with (c # cs) (x # xs) = (c = x \<and> starts_with cs xs)"

fun occurs_in :: "string \<Rightarrow> string \<Rightarrow> bool" where
  "occurs_in q [] = (q = [])"
| "occurs_in q (x # xs) = (starts_with q (x # xs) \<or> occurs_in q xs)"

definition contains_ci :: "string \<Rightarrow> string \<Rightarrow> bool" where
  "contains_ci q t = occurs_in (map lower_char q) (map lower_char t)"

fun regex_field :: "string \<Rightarrow> val option \<Rightarrow> bool" where
  "regex_field q (Some (VStr t)) = contains_ci q t"
| "regex_field q (Some (VList vs)) = list_ex (\<lambda>v. case v of VStr t \<Rightarrow> contains_ci q t | _ \<Rightarrow> False) vs"
| "regex_field q _ = False"

definition lore_query :: "string \<Rightarrow> document \<Rightarrow> bool" where
  "lore_query q d =
     (regex_field q (dict_get (doc_fields d) ''title'') \<or>
      regex_field q (dict_get (doc_fields d) ''short_description''))"

section \<open>The database module\<close>

text \<open>
  Modelled from the spec: \<open>create_document\<close> and \<open>get_documents\<close> are imported from the
  module \<open>database\<close>, which is missing. By the spec, create inserts the record, already
  validated by the caller, and returns the newly assigned id; list returns all documents
  of the collection in insertion order. The id is returned as a string: the handlers
  pass it to \<open>ObjectId\<close>. A failed insertion is None.
\<close>

definition create_document :: "string \<Rightarrow> dict \<Rightarrow> objectid \<Rightarrow> state \<Rightarrow> (string \<times> state) option" where
  "create_document name data new_oid s =
     (case insert_one (db s name) new_oid data of
        None \<Rightarrow> None
      | Some c \<Rightarrow> Some (oid_str new_oid, s\<lparr>db := (db s)(name := c)\<rparr>))"

definition get_documents :: "string \<Rightarrow> state \<Rightarrow> document list" where
  "get_documents name s = db s name"

section \<open>Requests\<close>

text \<open>
  The body of a request, as the framework finds it when the route takes a body: no body;
  bytes that cannot be read as text or whose decoding fails with an exception other
  than JSONDecodeError (\<open>Unreadable\<close>); a text that is not JSON (\<open>InvalidJSON\<close>); a JSON
  value; or, under a content type other than JSON, the bytes themselves, which reach
  validation undecoded (\<open>RawBody\<close>, with whether they are UTF-8 text).
\<close>

datatype request_body =
    NoBody
  | Unreadable
  | InvalidJSON
  | JSONBody val
  | RawBody bool

text \<open>
  A request is its method, the segments of its path (\<open>/api/lore/x\<close> is
  \<open>[''api'', ''lore'', ''x'']\<close>), the query parameters \<open>token\<close> and \<open>q\<close>, and its body.
  It also carries what the handler draws from outside: the 16 bytes of
  \<open>os.urandom(16)\<close> and the ObjectId that the driver generates for an insertion.
\<close>

datatype http_method = GET | POST | PUT | DELETE

record request =
  rq_method :: http_method
  rq_path :: "string list"
  rq_token :: "string option"
  rq_q :: "string option"
  rq_body :: request_body
  rq_urandom :: "8 word list"
  rq_new_oid :: objectid

text \<open>\<open>bytes.hex()\<close>: two lower-case hexadecimal digits for each byte.\<close>

definition hex_digit :: "nat \<Rightarrow> char" where
  "hex_digit n = ''0123456789abcdef'' ! (n mod 16)"

definition bytes_hex :: "8 word list \<Rightarrow> string" where
  "bytes_hex bs = concat (map (\<lambda>b. [hex_digit (unat b div 16), hex_digit (unat b mod 16)]) bs)"

section \<open>Public handlers\<close>

definition root :: "state \<Rightarrow> response \<times> state" where
  "root s = (Ok (BDict [(''message'', VStr ''Backend running'')]), s)"

definition test_database :: "state \<Rightarrow> response \<times> state" where
  "test_database s = (Diagnostic, s)"

definition poi_public :: "document \<Rightarrow> dict" where
  "poi_public p =
     [(''id'', VStr (oid_str (doc_id p))),
      (''name'', get_or_none (doc_fields p) ''name''),
      (''x_coordinate'', get_or_none (doc_fields p) ''x_coordinate''),
      (''y_coordinate'', get_or_none (doc_fields p) ''y_coordinate''),
      (''lore_article_id'', get_or_none (doc_fields p) ''lore_article_id''),
      (''icon_type'', get_or_default (doc_fields p) ''icon_type'' (VStr ''marker''))]"

definition get_pois :: "state \<Rightarrow> response \<times> state" where
  "get_pois s = (Ok (BList (map (\<lambda>p. BDict (poi_public p)) (get_documents ''poi'' s))), s)"

definition get_lore_article :: "string \<Rightarrow> state \<Rightarrow> response \<times> state" where
  "get_lore_article article_id s =
     (case ObjectId article_id of
        None \<Rightarrow> (HTTPException 400 ''Invalid article id'', s)
      | Some obj_id \<Rightarrow>
          (case find_one (db s ''lorearticle'') obj_id of
             None \<Rightarrow> (HTTPException 404 ''Article not found'', s)
           | Some doc \<Rightarrow>
               (case doc_to_public (Some doc) of
                  None \<Rightarrow> (ServerError, s)
                | Some public \<Rightarrow>
                    (case dict_get public ''id'' of
                       None \<Rightarrow> (ServerError, s)
                     | Some i \<Rightarrow>
                         (Ok (BDict
                            [(''id'', i),
                             (''title'', get_or_none public ''title''),
                             (''short_description'', get_or_none public ''short_description''),
                             (''main_image_url'', get_or_none public ''main_image_url''),
                             (''content_body'', get_or_none public ''content_body'')]), s)))))"

definition lore_hit :: "document \<Rightarrow> dict" where
  "lore_hit r =
     [(''id'', VStr (oid_str (doc_id r))),
      (''title'', get_or_none (doc_fields r) ''title''),
      (''short_description'', get_or_none (doc_fields r) ''short_description'')]"

definition search_lore :: "string \<Rightarrow> state \<Rightarrow> response \<times> state" where
  "search_lore q s =
     (if list_all plain_char q
      then (Ok (BList (map (\<lambda>r. BDict (lore_hit r))
                  (take 20 (filter (lore_query q) (db s ''lorearticle''))))), s)
      else (NotModelled, s))"

definition public_get_map :: "state \<Rightarrow> response \<times> state" where
  "public_get_map s =
     (if \<not> latest_modelled (db s ''mapasset'') then (NotModelled, s)
      else case find_one_latest (db s ''mapasset'') of
             None \<Rightarrow> (Ok BNull, s)
           | Some doc \<Rightarrow> (Ok (body_of (doc_to_public (Some doc))), s))"

section \<open>Admin handlers\<close>

definition admin_login :: "dict \<Rightarrow> 8 word list \<Rightarrow> state \<Rightarrow> response \<times> state" where
  "admin_login payload urandom s =
     (if dict_get payload ''username'' = Some (VStr (ADMIN_USERNAME s)) \<and>
         dict_get payload ''password'' = Some (VStr (ADMIN_PASSWORD s))
      then (let token = bytes_hex urandom
            in (Ok (BDict [(''token'', VStr token)]), s\<lparr>TOKENS := insert token (TOKENS s)\<rparr>))
      else (HTTPException 401 ''Invalid credentials'', s))"

definition get_map :: "state \<Rightarrow> response \<times> state" where
  "get_map s =
     (if \<not> latest_modelled (db s ''mapasset'') then (NotModelled, s)
      else case find_one_latest (db s ''mapasset'') of
             None \<Rightarrow> (Ok BNull, s)
           | Some doc \<Rightarrow> (Ok (body_of (doc_to_public (Some doc))), s))"

text \<open>
  \<open>current.get("version", 0) + 1\<close>: an integer plus one, unbounded as Python's integers
  are; a bool counts as 0 or 1; for None, a string, a list or a dict the addition raises
  TypeError. The sum of a float and what the \<open>version: int\<close> field of \<open>MapAsset\<close> makes
  of it are not modelled.
\<close>

fun next_version :: "val \<Rightarrow> response + val" where
  "next_version (VInt i) = Inr (VInt (i + 1))"
| "next_version (VBool b) = Inr (VInt ((if b then 1 else 0) + 1))"
| "next_version (VFloat r) = Inl NotModelled"
| "next_version VInf = Inl NotModelled"
| "next_version VNegInf = Inl NotModelled"
| "next_version VNaN = Inl NotModelled"
| "next_version _ = Inl ServerError"

text \<open>
  \<open>MapAsset(...)\<close> is built in the handler, so a value that the model refuses raises a
  ValidationError there, which is answered 500. A version of more than 64 bits is
  refused by pydantic or, when pydantic takes it, by the store at the insertion: the
  answer is 500 in both cases, and nothing is inserted.
\<close>

definition set_map :: "dict \<Rightarrow> objectid \<Rightarrow> state \<Rightarrow> response \<times> state" where
  "set_map payload new_oid s =
     (if \<not> latest_modelled (db s ''mapasset'') then (NotModelled, s)
      else
        let current = find_one_latest (db s ''mapasset'');
            version = (case current of
                         None \<Rightarrow> Inr (VInt 1)
                       | Some c \<Rightarrow> next_version (get_or_default (doc_fields c) ''version'' (VInt 0)))
        in case version of
             Inl e \<Rightarrow> (e, s)
           | Inr v \<Rightarrow>
               (case validate MapAsset
                       [(''image_url'', get_or_none payload ''image_url''),
                        (''width'', get_or_none payload ''width''),
                        (''height'', get_or_none payload ''height''),
                        (''version'', v)] of
                  None \<Rightarrow> (ServerError, s)
                | Some new_doc \<Rightarrow>
                    (case create_document ''mapasset'' new_doc new_oid s of
                       None \<Rightarrow> (ServerError, s)
                     | Some (new_id, s') \<Rightarrow>
                         (case ObjectId new_id of
                            None \<Rightarrow> (ServerError, s')
                          | Some oid \<Rightarrow>
                              (Ok (body_of (doc_to_public (find_one (db s' ''mapasset'') oid))),
                               s')))))"

text \<open>
  The handlers for POIs, lore articles and categories have the same bodies, each on
  its own collection; \<open>admin_list\<close>, \<open>admin_create\<close>, \<open>admin_update\<close> and
  \<open>admin_delete\<close> are these bodies.
\<close>

definition admin_list :: "string \<Rightarrow> state \<Rightarrow> response \<times> state" where
  "admin_list name s =
     (Ok (BList (map (\<lambda>d. body_of (doc_to_public (Some d))) (get_documents name s))), s)"

definition admin_create :: "string \<Rightarrow> dict \<Rightarrow> objectid \<Rightarrow> state \<Rightarrow> response \<times> state" where
  "admin_create name payload new_oid s =
     (case create_document name payload new_oid s of
        None \<Rightarrow> (ServerError, s)
      | Some (new_id, s') \<Rightarrow>
          (case ObjectId new_id of
             None \<Rightarrow> (ServerError, s')
           | Some oid \<Rightarrow> (Ok (body_of (doc_to_public (find_one (db s' name) oid))), s')))"

text \<open>
  In \<open>admin_update\<close> the driver encodes the update before it sends it, and raises
  OverflowError when it cannot.
\<close>

definition admin_update :: "string \<Rightarrow> string \<Rightarrow> dict \<Rightarrow> state \<Rightarrow> response \<times> state" where
  "admin_update name ident payload s =
     (case ObjectId ident of
        None \<Rightarrow> (HTTPException 400 ''Invalid id'', s)
      | Some obj_id \<Rightarrow>
          (let update_doc = filter (\<lambda>p. snd p \<noteq> VNone) payload
           in if update_doc = [] then (Ok (BDict [(''updated'', VBool False)]), s)
              else if \<not> bson_ok (VDict update_doc) then (ServerError, s)
              else (let s' = s\<lparr>db := (db s)(name := update_one (db s name) obj_id update_doc)\<rparr>;
                        updated = find_one (db s' name) obj_id
                    in (Ok (body_of (doc_to_public updated)), s'))))"

definition admin_delete :: "string \<Rightarrow> string \<Rightarrow> state \<Rightarrow> response \<times> state" where
  "admin_delete name ident s =
     (case ObjectId ident of
        None \<Rightarrow> (HTTPException 400 ''Invalid id'', s)
      | Some obj_id \<Rightarrow>
          (Ok (BDict [(''deleted'', VBool True)]),
           s\<lparr>db := (db s)(name := delete_one (db s name) obj_id)\<rparr>))"

definition admin_list_pois :: "state \<Rightarrow> response \<times> state" where
  "admin_list_pois = admin_list ''poi''"

definition admin_create_poi :: "dict \<Rightarrow> objectid \<Rightarrow> state \<Rightarrow> response \<times> state" where
  "admin_create_poi = admin_create ''poi''"

definition admin_update_poi :: "string \<Rightarrow> dict \<Rightarrow> state \<Rightarrow> response \<times> state" where
  "admin_update_poi = admin_update ''poi''"

definition admin_delete_poi :: "string \<Rightarrow> state \<Rightarrow> response \<times> state" where
  "admin_delete_poi = admin_delete ''poi''"

definition admin_list_lore :: "state \<Rightarrow> response \<times> state" where
  "admin_list_lore = admin_list ''lorearticle''"

definition admin_create_lore :: "dict \<Rightarrow> objectid \<Rightarrow> state \<Rightarrow> response \<times> state" where
  "admin_create_lore = admin_create ''lorearticle''"

definition admin_update_lore :: "string \<Rightarrow> dict \<Rightarrow> state \<Rightarrow> response \<times> state" where
  "admin_update_lore = admin_update ''lorearticle''"

definition admin_delete_lore :: "string \<Rightarrow> state \<Rightarrow> response \<times> state" where
  "admin_delete_lore = admin_delete ''lorearticle''"

definition admin_list_categories :: "state \<Rightarrow> response \<times> state" where
  "admin_list_categories = admin_list ''category''"

definition admin_create_category :: "dict \<Rightarrow> objectid \<Rightarrow> state \<Rightarrow> response \<times> state" where
  "admin_create_category = admin_create ''category''"

definition admin_update_category :: "string \<Rightarrow> dict \<Rightarrow> state \<Rightarrow> response \<times> state" where
  "admin_update_category = admin_update ''category''"

definition admin_delete_category :: "string \<Rightarrow> state \<Rightarrow> response \<times> state" where
  "admin_delete_category = admin_delete ''category''"

section \<open>Routing\<close>

text \<open>
  The routes in the order in which main.py declares them. The framework takes the first
  route whose method and path both match; \<open>Param\<close> is a path parameter such as
  \<open>{article_id}\<close>, which matches any one non-empty segment. The flag says whether the
  route is declared with \<open>dependencies=[Depends(require_admin)]\<close>.
\<close>

datatype seg = Lit string | Param

datatype route =
    R_root | R_test_database | R_get_pois | R_get_lore_article | R_search_lore
  | R_public_get_map | R_admin_login | R_get_map | R_set_map
  | R_admin_list_pois | R_admin_create_poi | R_admin_update_poi | R_admin_delete_poi
  | R_admin_list_lore | R_admin_create_lore | R_admin_update_lore | R_admin_delete_lore
  | R_admin_list_categories | R_admin_create_category | R_admin_update_category
  | R_admin_delete_category

definition routes :: "(http_method \<times> seg list \<times> bool \<times> route) list" where
  "routes =
     [(GET, [], False, R_root),
      (GET, [Lit ''test''], False, R_test_database),
      (GET, [Lit ''api'', Lit ''pois''], False, R_get_pois),
      (GET, [Lit ''api'', Lit ''lore'', Param], False, R_get_lore_article),
      (GET, [Lit ''api'', Lit ''lore'', Lit ''search''], False, R_search_lore),
      (GET, [Lit ''api'', Lit ''map''], False, R_public_get_map),
      (POST, [Lit ''api'', Lit ''admin'', Lit ''login''], False, R_admin_login),
      (GET, [Lit ''api'', Lit ''admin'', Lit ''map''], True, R_get_map),
      (POST, [Lit ''api'', Lit ''admin'', Lit ''map''], True, R_set_map),
      (GET, [Lit ''api'', Lit ''admin'', Lit ''pois''], True, R_admin_list_pois),
      (POST, [Lit ''api'', Lit ''admin'', Lit ''pois''], True, R_admin_create_poi),
      (PUT, [Lit ''api'', Lit ''admin'', Lit ''pois'', Param], True, R_admin_update_poi),
      (DELETE, [Lit ''api'', Lit ''admin'', Lit ''pois'', Param], True, R_admin_delete_poi),
      (GET, [Lit ''api'', Lit ''admin'', Lit ''lore''], True, R_admin_list_lore),
      (POST, [Lit ''api'', Lit ''admin'', Lit ''lore''], True, R_admin_create_lore),
      (PUT, [Lit ''api'', Lit ''admin'', Lit ''lore'', Param], True, R_admin_update_lore),
      (DELETE, [Lit ''api'', Lit ''admin'', Lit ''lore'', Param], True, R_admin_delete_lore),
      (GET, [Lit ''api'', Lit ''admin'', Lit ''categories''], True, R_admin_list_categories),
      (POST, [Lit ''api'', Lit ''admin'', Lit ''categories''], True, R_admin_create_category),
      (PUT, [Lit ''api'', Lit ''admin'', Lit ''categories'', Param], True,
         R_admin_update_category),
      (DELETE, [Lit ''api'', Lit ''admin'', Lit ''categories'', Param], True,
         R_admin_delete_category)]"

fun seg_match :: "seg \<Rightarrow> string \<Rightarrow> bool" where
  "seg_match (Lit l) x = (l = x)"
| "seg_match Param x = (x \<noteq> [])"

fun path_match :: "seg list \<Rightarrow> string list \<Rightarrow> bool" where
  "path_match [] [] = True"
| "path_match (p # ps) (x # xs) = (seg_match p x \<and> path_match ps xs)"
| "path_match _ _ = False"

definition find_route :: "http_method \<Rightarrow> string list \<Rightarrow> (bool \<times> route) option" where
  "find_route m path =
     map_option (\<lambda>r. snd (snd r))
       (find (\<lambda>r. fst r = m \<and> path_match (fst (snd r)) path) routes)"

text \<open>The path parameter of a route is its last segment.\<close>

definition path_param :: "request \<Rightarrow> string" where
  "path_param req = (case rq_path req of [] \<Rightarrow> [] | _ \<Rightarrow> last (rq_path req))"

text \<open>
  The body of the request read as a model. The handler is called with the model when
  the body is a JSON object that validates. Otherwise the answer is 422 and the handler
  is not called: for a missing body; for a JSON object that does not validate
  (\<open>invalid_body\<close>); for a JSON value that is not an object and for undecoded bytes,
  where the error quotes the whole value, so that the answer is 500 when that cannot be
  rendered. JSON null counts as a missing body.
\<close>

fun body_model :: "schema \<Rightarrow> request_body \<Rightarrow> response + dict" where
  "body_model sch (JSONBody (VDict b)) =
     (case validate sch b of None \<Rightarrow> Inl (invalid_body sch b) | Some payload \<Rightarrow> Inr payload)"
| "body_model sch (JSONBody v) =
     Inl (if finite_val v then RequestValidationError else ServerError)"
| "body_model sch (RawBody utf8) = Inl (if utf8 then RequestValidationError else ServerError)"
| "body_model sch b = Inl RequestValidationError"

definition with_body ::
  "schema \<Rightarrow> request \<Rightarrow> state \<Rightarrow> (dict \<Rightarrow> response \<times> state) \<Rightarrow> response \<times> state" where
  "with_body sch req s k =
     (case body_model sch (rq_body req) of Inl e \<Rightarrow> (e, s) | Inr payload \<Rightarrow> k payload)"

fun dispatch :: "route \<Rightarrow> request \<Rightarrow> state \<Rightarrow> response \<times> state" where
  "dispatch R_root req s = root s"
| "dispatch R_test_database req s = test_database s"
| "dispatch R_get_pois req s = get_pois s"
| "dispatch R_get_lore_article req s = get_lore_article (path_param req) s"
| "dispatch R_search_lore req s =
     (case rq_q req of None \<Rightarrow> (RequestValidationError, s) | Some q \<Rightarrow> search_lore q s)"
| "dispatch R_public_get_map req s = public_get_map s"
| "dispatch R_admin_login req s =
     with_body AuthRequest req s (\<lambda>payload. admin_login payload (rq_urandom req) s)"
| "dispatch R_get_map req s = get_map s"
| "dispatch R_set_map req s =
     with_body MapAssetUpdate req s (\<lambda>payload. set_map payload (rq_new_oid req) s)"
| "dispatch R_admin_list_pois req s = admin_list_pois s"
| "dispatch R_admin_create_poi req s =
     with_body POICreate req s (\<lambda>payload. admin_create_poi payload (rq_new_oid req) s)"
| "dispatch R_admin_update_poi req s =
     with_body POIUpdate req s (\<lambda>payload. admin_update_poi (path_param req) payload s)"
| "dispatch R_admin_delete_poi req s = admin_delete_poi (path_param req) s"
| "dispatch R_admin_list_lore req s = admin_list_lore s"
| "dispatch R_admin_create_lore req s =
     with_body LoreCreate req s (\<lambda>payload. admin_create_lore payload (rq_new_oid req) s)"
| "dispatch R_admin_update_lore req s =
     with_body LoreUpdate req s (\<lambda>payload. admin_update_lore (path_param req) payload s)"
| "dispatch R_admin_delete_lore req s = admin_delete_lore (path_param req) s"
| "dispatch R_admin_list_categories req s = admin_list_categories s"
| "dispatch R_admin_create_category req s =
     with_body CategoryCreate req s
       (\<lambda>payload. admin_create_category payload (rq_new_oid req) s)"
| "dispatch R_admin_update_category req s =
     with_body CategoryUpdate req s
       (\<lambda>payload. admin_update_category (path_param req) payload s)"
| "dispatch R_admin_delete_category req s = admin_delete_category (path_param req) s"

text \<open>
  The routes whose handler has a body parameter. For these the framework reads and
  decodes the body before anything else: an exception there is answered 400, and a text
  that is not JSON is answered 422, before the dependencies of the route are run.
\<close>

fun takes_body :: "route \<Rightarrow> bool" where
  "takes_body R_admin_login = True"
| "takes_body R_set_map = True"
| "takes_body R_admin_create_poi = True"
| "takes_body R_admin_update_poi = True"
| "takes_body R_admin_create_lore = True"
| "takes_body R_admin_update_lore = True"
| "takes_body R_admin_create_category = True"
| "takes_body R_admin_update_category = True"
| "takes_body _ = False"

definition body_error :: "route \<Rightarrow> request \<Rightarrow> response option" where
  "body_error r req =
     (if takes_body r
      then (case rq_body req of
              Unreadable \<Rightarrow> Some (HTTPException 400 ''There was an error parsing the body'')
            | InvalidJSON \<Rightarrow> Some RequestValidationError
            | _ \<Rightarrow> None)
      else None)"

text \<open>
  What a handler returns is rendered as JSON: a body that holds a float that is not
  finite cannot be rendered, and the answer is 500. What the handler did to the state
  stays done.
\<close>

fun finite_body :: "body \<Rightarrow> bool" where
  "finite_body BNull = True"
| "finite_body (BDict d) = finite_val (VDict d)"
| "finite_body (BList bs) = list_all finite_body bs"

definition respond :: "response \<times> state \<Rightarrow> response \<times> state" where
  "respond x =
     (case fst x of
        Ok b \<Rightarrow> if finite_body b then x else (ServerError, snd x)
      | _ \<Rightarrow> x)"

text \<open>
  A request is answered by its route. The body is read first, when the route takes one;
  then the dependency \<open>require_admin\<close> runs, on the query parameter \<open>token\<close>; then the
  body is validated and the handler is called; then what it returned is rendered.
\<close>

definition handle :: "request \<Rightarrow> state \<Rightarrow> response \<times> state" where
  "handle req s =
     (case find_route (rq_method req) (rq_path req) of
        None \<Rightarrow> (NoRoute, s)
      | Some (guarded, r) \<Rightarrow>
          (case body_error r req of
             Some e \<Rightarrow> (e, s)
           | None \<Rightarrow>
               respond
                 (if guarded
                  then (case require_admin (rq_token req) s of
                          Inl e \<Rightarrow> (e, s)
                        | Inr ok \<Rightarrow> dispatch r req s)
                  else dispatch r req s)))"

text \<open>A sequence of requests, each on the state the one before it left.\<close>

fun run :: "request list \<Rightarrow> state \<Rightarrow> state" where
  "run [] s = s"
| "run (req # reqs) s = run reqs (snd (handle req s))"

section \<open>Notions used in the statements\<close>

text \<open>
  The store keeps every ObjectId in its canonical form: 24 lower-case hexadecimal
  digits, the string that \<open>str\<close> gives for it.
\<close>

definition valid_oid :: "objectid \<Rightarrow> bool" where
  "valid_oid x = (length x = 24 \<and> list_all (\<lambda>c. c \<in> set ''0123456789abcdef'') x)"

text \<open>
  The three groups of admin routes: the path segment of each group with its collection,
  and with the model of its update route.
\<close>

definition crud_collections :: "(string \<times> string) list" where
  "crud_collections =
     [(''pois'', ''poi''), (''lore'', ''lorearticle''), (''categories'', ''category'')]"


text \<open>
  A small state for the concrete instances: one issued token, one POI, one lore article
  and two versions of the map in the store.
\<close>

definition demo_state :: state where
  "demo_state =
     \<lparr>TOKENS = {''00ff''},
      db = (\<lambda>name. [])
        (''poi'' :=
           [\<lparr>doc_id = ''aaaaaaaaaaaaaaaaaaaaaaaa'',
             doc_fields =
               [(''name'', VStr ''Gate''), (''x_coordinate'', VFloat (1 / 2)),
                (''y_coordinate'', VFloat (1 / 4)), (''icon_type'', VStr ''city''),
                (''lore_article_id'', VNone)]\<rparr>],
         ''lorearticle'' :=
           [\<lparr>doc_id = ''bbbbbbbbbbbbbbbbbbbbbbbb'',
             doc_fields =
               [(''title'', VStr ''The Dark Forest''), (''short_description'', VStr ''Trees''),
                (''main_image_url'', VNone), (''content_body'', VStr ''<p>Dark</p>''),
                (''category_ids'', VList []), (''slug'', VNone)]\<rparr>],
         ''mapasset'' :=
           [\<lparr>doc_id = ''cccccccccccccccccccccccc'',
             doc_fields =
               [(''image_url'', VStr ''m1.png''), (''width'', VNone), (''height'', VNone),
                (''version'', VInt 1)]\<rparr>,
            \<lparr>doc_id = ''dddddddddddddddddddddddd'',
             doc_fields =
               [(''image_url'', VStr ''m2.png''), (''width'', VInt 800), (''height'', VInt 600),
                (''version'', VInt 2)]\<rparr>]),
      ADMIN_USERNAME = ''admin'',
      ADMIN_PASSWORD = ''changeme''\<rparr>"

definition request :: "http_method \<Rightarrow> string list \<Rightarrow> string option \<Rightarrow> dict option \<Rightarrow> request" where
  "request m path tok b =
     \<lparr>rq_method = m, rq_path = path, rq_token = tok, rq_q = None,
      rq_body = (case b of None \<Rightarrow> NoBody | Some d \<Rightarrow> JSONBody (VDict d)),
      rq_urandom = [0x00, 0xff], rq_new_oid = ''eeeeeeeeeeeeeeeeeeeeeeee''\<rparr>"

text \<open>
  The dictionaries of a response: the body itself, or the entries of the list it is.
  A response that is not a JSON body of a handler has none.
\<close>

fun body_dicts :: "body \<Rightarrow> dict list" where
  "body_dicts BNull = []"
| "body_dicts (BDict d) = [d]"
| "body_dicts (BList bs) = concat (map body_dicts bs)"

definition response_dicts :: "response \<Rightarrow> dict list" where
  "response_dicts r = (case r of Ok b \<Rightarrow> body_dicts b | _ \<Rightarrow> [])"

text \<open>
  The collections of the program, and the ObjectIds of the documents stored in them.
\<close>

definition collection_names :: "string list" where
  "collection_names = [''poi'', ''lorearticle'', ''category'', ''mapasset'']"

definition stored_ids :: "state \<Rightarrow> objectid list" where
  "stored_ids s = concat (map (\<lambda>name. map doc_id (db s name)) collection_names)"

text \<open>
  A returned document has, under the key \<open>id\<close>, the string of the ObjectId of a stored
  document. The other dictionaries that the handlers return are the four
  acknowledgements, which have a single key.
\<close>

definition returned_document :: "state \<Rightarrow> dict \<Rightarrow> bool" where
  "returned_document s d =
     (case dict_get d ''id'' of Some (VStr i) \<Rightarrow> i \<in> set (stored_ids s) | _ \<Rightarrow> False)"

definition acknowledgement :: "dict \<Rightarrow> bool" where
  "acknowledgement d =
     (map fst d \<in> set [[''message''], [''token''], [''updated''], [''deleted'']])"

definition public_contract :: "state \<Rightarrow> dict \<Rightarrow> bool" where
  "public_contract s d =
     (dict_get d ''_id'' = None \<and> (returned_document s d \<or> acknowledgement d))"


section \<open>Facts about dictionaries, ObjectIds and the store\<close>

lemma dict_get_dict_set: "dict_get (dict_set k v d) k' = (if k' = k then Some v else dict_get d k')"
  by (induction d) (auto simp: dict_get_def)

lemma dict_get_filter:
  "dict_get (filter (\<lambda>p. fst p \<noteq> k) d) k' = (if k' = k then None else dict_get d k')"
  by (induction d) (auto simp: dict_get_def)

lemma keys_dict_set: "fst ` set (dict_set k v d) = insert k (fst ` set d)"
  by (induction d) auto

lemma hex_lower_id: "c \<in> set ''0123456789abcdef'' \<Longrightarrow> hex_lower c = c"
  by (auto simp: hex_lower_def)

lemma is_hex_lower: "c \<in> set ''0123456789abcdef'' \<Longrightarrow> is_hex c"
  by (auto simp: is_hex_def)

lemma map_hex_lower_id: "list_all (\<lambda>c. c \<in> set ''0123456789abcdef'') x \<Longrightarrow> map hex_lower x = x"
  by (induction x) (simp_all add: hex_lower_id del: set_simps)

lemma all_is_hex: "list_all (\<lambda>c. c \<in> set ''0123456789abcdef'') x \<Longrightarrow> list_all is_hex x"
  by (induction x) (simp_all add: is_hex_lower del: set_simps)

lemma not_space_lower: "c \<in> set ''0123456789abcdef'' \<Longrightarrow> \<not> is_space c"
  by (auto simp: is_space_def)

lemma fromhex_lower:
  "list_all (\<lambda>c. c \<in> set ''0123456789abcdef'') x \<Longrightarrow> even (length x) \<Longrightarrow> fromhex x = Some x"
  by (induction x rule: fromhex.induct)
     (simp_all add: hex_lower_id is_hex_lower not_space_lower del: set_simps)

lemma ObjectId_valid: "valid_oid x \<Longrightarrow> ObjectId x = Some x"
  by (simp add: valid_oid_def ObjectId_def fromhex_lower)

lemma find_one_Some: "find_one c oid = Some d \<Longrightarrow> doc_id d = oid \<and> d \<in> set c"
  by (auto simp: find_one_def find_Some_iff)

lemma find_one_None: "find_one c oid = None \<longleftrightarrow> oid \<notin> doc_id ` set c"
  by (auto simp: find_one_def find_None_iff)


lemma update_one_ids: "map doc_id (update_one c oid upd) = map doc_id c"
  by (induction c) auto

lemma delete_one_absent: "oid \<notin> doc_id ` set c \<Longrightarrow> delete_one c oid = c"
  by (induction c) auto

lemma delete_one_removes: "distinct (map doc_id c) \<Longrightarrow> oid \<notin> doc_id ` set (delete_one c oid)"
  by (induction c) auto

lemma delete_one_subset: "set (delete_one c oid) \<subseteq> set c"
  by (induction c) auto

lemma delete_one_distinct: "distinct (map doc_id c) \<Longrightarrow> distinct (map doc_id (delete_one c oid))"
proof (induction c)
  case Nil
  then show ?case by simp
next
  case (Cons d ds)
  have "doc_id d \<notin> doc_id ` set (delete_one ds oid)"
    using Cons.prems delete_one_subset [of ds oid] by auto
  with Cons show ?case by simp
qed

lemma delete_one_twice:
  "distinct (map doc_id c) \<Longrightarrow> delete_one (delete_one c oid) oid = delete_one c oid"
  by (simp add: delete_one_absent delete_one_removes)


lemma ObjectId_nonempty: "ObjectId x = Some oid \<Longrightarrow> x \<noteq> []"
  by (auto simp: ObjectId_def split: if_splits)

lemma route_delete_poi:
  "ident \<noteq> [] \<Longrightarrow> find_route DELETE [''api'', ''admin'', ''pois'', ident] = Some (True, R_admin_delete_poi)"
  by (simp add: find_route_def routes_def)

lemma route_delete_lore:
  "ident \<noteq> [] \<Longrightarrow> find_route DELETE [''api'', ''admin'', ''lore'', ident] = Some (True, R_admin_delete_lore)"
  by (simp add: find_route_def routes_def)

lemma route_delete_category:
  "ident \<noteq> [] \<Longrightarrow> find_route DELETE [''api'', ''admin'', ''categories'', ident] = Some (True, R_admin_delete_category)"
  by (simp add: find_route_def routes_def)





lemma respond_snd: "snd (respond x) = snd x"
  by (cases x) (simp add: respond_def split: response.split)

lemma respond_simps:
  "finite_body b \<Longrightarrow> respond (Ok b, s) = (Ok b, s)"
  "\<not> finite_body b \<Longrightarrow> respond (Ok b, s) = (ServerError, s)"
  "respond (HTTPException n detail, s) = (HTTPException n detail, s)"
  "respond (RequestValidationError, s) = (RequestValidationError, s)"
  "respond (ServerError, s) = (ServerError, s)"
  "respond (Diagnostic, s) = (Diagnostic, s)"
  "respond (NoRoute, s) = (NoRoute, s)"
  "respond (NotModelled, s) = (NotModelled, s)"
  by (simp_all add: respond_def)

lemma handle_delete:
  assumes "rq_method req = DELETE" "rq_path req = [''api'', ''admin'', seg, ident]"
    "(seg, name) \<in> set crud_collections" "ident \<noteq> []"
  shows "handle req s =
     respond (case require_admin (rq_token req) s of Inl e \<Rightarrow> (e, s)
              | Inr ok \<Rightarrow> admin_delete name ident s)"
proof -
  from assms(3) consider "seg = ''pois'' \<and> name = ''poi''"
    | "seg = ''lore'' \<and> name = ''lorearticle''"
    | "seg = ''categories'' \<and> name = ''category''"
    by (auto simp: crud_collections_def)
  then show ?thesis
  proof cases
    case 1
    then show ?thesis
      using assms(1,2,4)
      by (simp add: handle_def route_delete_poi path_param_def admin_delete_poi_def body_error_def
          split: sum.split)
  next
    case 2
    then show ?thesis
      using assms(1,2,4)
      by (simp add: handle_def route_delete_lore path_param_def admin_delete_lore_def body_error_def
          split: sum.split)
  next
    case 3
    then show ?thesis
      using assms(1,2,4)
      by (simp add: handle_def route_delete_category path_param_def admin_delete_category_def body_error_def
          split: sum.split)
  qed
qed



lemma dict_get_Cons: "dict_get ((a, v) # ps) k = (if k = a then Some v else dict_get ps k)"
  by (simp add: dict_get_def)





lemma find_one_map:
  "find_one c oid = Some d \<Longrightarrow>
   find_one (map (\<lambda>e. if doc_id e = oid then f e else e) c) oid = Some (f d) \<or> doc_id (f d) \<noteq> oid"
  by (induction c) (auto simp: find_one_def)

lemma find_one_update:
  "find_one c oid = Some d \<Longrightarrow>
   find_one (update_one c oid upd) oid = Some (d\<lparr>doc_fields := apply_set upd (doc_fields d)\<rparr>)"
  by (induction c) (auto simp: find_one_def)










lemma demo_token: "''00ff'' \<in> TOKENS demo_state"
  by (simp add: demo_state_def)

lemma demo_poi:
  "db demo_state ''poi'' =
     [\<lparr>doc_id = ''aaaaaaaaaaaaaaaaaaaaaaaa'',
       doc_fields =
         [(''name'', VStr ''Gate''), (''x_coordinate'', VFloat (1 / 2)),
          (''y_coordinate'', VFloat (1 / 4)), (''icon_type'', VStr ''city''),
          (''lore_article_id'', VNone)]\<rparr>]"
  by (simp add: demo_state_def)






lemma route_get_lore:
  "x \<noteq> [] \<Longrightarrow> find_route GET [''api'', ''lore'', x] = Some (False, R_get_lore_article)"
  by (simp add: find_route_def routes_def)

lemma get_or_none_public:
  "k \<noteq> ''id'' \<Longrightarrow> k \<noteq> ''_id'' \<Longrightarrow>
   get_or_none (dict_set ''id'' v (filter (\<lambda>p. fst p \<noteq> ''_id'') d)) k = get_or_none d k"
  by (simp add: get_or_none_def dict_get_dict_set dict_get_filter)

lemma fromhex_hex:
  "list_all is_hex x \<Longrightarrow> even (length x) \<Longrightarrow> fromhex x = Some (map hex_lower x)"
  by (induction x rule: fromhex.induct) (auto simp: is_hex_def is_space_def)

lemma fromhex_length: "fromhex x = Some y \<Longrightarrow> length y \<le> length x"
  by (induction x arbitrary: y rule: fromhex.induct) (auto split: if_splits)

lemma fromhex_short:
  "fromhex x = Some y \<Longrightarrow> \<not> list_all is_hex x \<Longrightarrow> length y < length x"
proof (induction x arbitrary: y rule: fromhex.induct)
  case 1
  then show ?case by simp
next
  case (2 c)
  then show ?case by (auto split: if_splits)
next
  case (3 c d cs)
  show ?case
  proof (cases "is_space c")
    case True
    then have "fromhex (d # cs) = Some y" using 3(3) by simp
    from fromhex_length [OF this] show ?thesis by simp
  next
    case False
    then show ?thesis
      using 3(2) [of "tl (tl y)"] 3(3,4) by (auto split: if_splits)
  qed
qed

lemma ObjectId_cases:
  assumes "ObjectId x = Some oid"
  shows "(list_all is_hex x \<and> oid = map hex_lower x) \<or> (\<not> list_all is_hex x \<and> length oid < 24)"
proof (cases "list_all is_hex x")
  case True
  then show ?thesis
    using assms fromhex_hex [OF True] by (auto simp: ObjectId_def split: if_splits)
next
  case False
  then show ?thesis
    using assms fromhex_short [OF _ False] by (auto simp: ObjectId_def split: if_splits)
qed

lemma handle_get_lore:
  assumes "rq_method req = GET" and "rq_path req = [''api'', ''lore'', x]" and "x \<noteq> []"
  shows "handle req s = respond (get_lore_article x s)"
  using assms by (simp add: handle_def route_get_lore path_param_def body_error_def)

lemma get_lore_article_invalid:
  "length x \<noteq> 24 \<or> fromhex x = None \<Longrightarrow>
   get_lore_article x s = (HTTPException 400 ''Invalid article id'', s)"
  by (auto simp: get_lore_article_def ObjectId_def)

lemma get_lore_article_missing:
  "length x = 24 \<Longrightarrow> fromhex x = Some oid \<Longrightarrow> oid \<notin> doc_id ` set (db s ''lorearticle'') \<Longrightarrow>
   get_lore_article x s = (HTTPException 404 ''Article not found'', s)"
  by (simp add: get_lore_article_def ObjectId_def find_one_None [symmetric])

lemma get_lore_article_found:
  assumes "length x = 24" and "fromhex x = Some oid"
    and "find_one (db s ''lorearticle'') oid = Some d"
  shows "get_lore_article x s =
     (Ok (BDict
        [(''id'', VStr oid),
         (''title'', get_or_none (doc_fields d) ''title''),
         (''short_description'', get_or_none (doc_fields d) ''short_description''),
         (''main_image_url'', get_or_none (doc_fields d) ''main_image_url''),
         (''content_body'', get_or_none (doc_fields d) ''content_body'')]), s)"
  using assms find_one_Some [OF assms(3)]
  by (simp add: get_lore_article_def ObjectId_def doc_to_public_def dict_get_dict_set
      get_or_none_public oid_str_def)

lemma demo_lore:
  "db demo_state ''lorearticle'' =
     [\<lparr>doc_id = ''bbbbbbbbbbbbbbbbbbbbbbbb'',
       doc_fields =
         [(''title'', VStr ''The Dark Forest''), (''short_description'', VStr ''Trees''),
          (''main_image_url'', VNone), (''content_body'', VStr ''<p>Dark</p>''),
          (''category_ids'', VList []), (''slug'', VNone)]\<rparr>]"
  by (simp add: demo_state_def)









lemma demo_tokens: "TOKENS demo_state = {''00ff''}"
  by (simp add: demo_state_def)

lemma with_body_tokens:
  assumes "\<And>payload. t \<in> TOKENS (snd (k payload))" and "t \<in> TOKENS s"
  shows "t \<in> TOKENS (snd (with_body sch req s k))"
  using assms by (simp add: with_body_def split: sum.split)

lemma admin_create_tokens: "t \<in> TOKENS s \<Longrightarrow> t \<in> TOKENS (snd (admin_create name payload oid s))"
  by (auto simp: admin_create_def create_document_def split: option.split)

lemma admin_update_tokens: "t \<in> TOKENS s \<Longrightarrow> t \<in> TOKENS (snd (admin_update name ident payload s))"
  by (simp add: admin_update_def Let_def split: option.split)

lemma admin_delete_tokens: "t \<in> TOKENS s \<Longrightarrow> t \<in> TOKENS (snd (admin_delete name ident s))"
  by (simp add: admin_delete_def split: option.split)

lemma set_map_tokens: "t \<in> TOKENS s \<Longrightarrow> t \<in> TOKENS (snd (set_map payload oid s))"
  by (auto simp: set_map_def Let_def create_document_def split: option.split sum.split)

lemma admin_login_tokens: "t \<in> TOKENS s \<Longrightarrow> t \<in> TOKENS (snd (admin_login payload u s))"
  by (simp add: admin_login_def Let_def)

lemma dispatch_tokens: "t \<in> TOKENS s \<Longrightarrow> t \<in> TOKENS (snd (dispatch r req s))"
  by (cases r)
     (simp_all add: with_body_tokens admin_create_tokens admin_update_tokens admin_delete_tokens
        set_map_tokens admin_login_tokens root_def test_database_def get_pois_def
        get_lore_article_def search_lore_def public_get_map_def get_map_def admin_list_def
        admin_list_pois_def admin_create_poi_def admin_update_poi_def admin_delete_poi_def
        admin_list_lore_def admin_create_lore_def admin_update_lore_def admin_delete_lore_def
        admin_list_categories_def admin_create_category_def admin_update_category_def
        admin_delete_category_def split: option.split)

lemma handle_tokens: "t \<in> TOKENS s \<Longrightarrow> t \<in> TOKENS (snd (handle req s))"
  by (simp add: handle_def dispatch_tokens respond_snd split: option.split sum.split)

lemma run_tokens: "t \<in> TOKENS s \<Longrightarrow> t \<in> TOKENS (run reqs s)"
  by (induction reqs arbitrary: s) (simp_all add: handle_tokens)

lemma route_login:
  "find_route POST [''api'', ''admin'', ''login''] = Some (False, R_admin_login)"
  by (simp add: find_route_def routes_def)

lemma admin_routes:
  "list_all (\<lambda>(m, p, guarded, r).
       guarded = (take 2 p = [Lit ''api'', Lit ''admin''] \<and> r \<noteq> R_admin_login)) routes"
  by (simp add: routes_def)

lemma with_body_tokens_eq:
  assumes "\<And>payload. TOKENS (snd (k payload)) = TOKENS s"
  shows "TOKENS (snd (with_body sch req s k)) = TOKENS s"
  using assms by (simp add: with_body_def split: sum.split)

lemma admin_create_tokens_eq: "TOKENS (snd (admin_create name payload oid s)) = TOKENS s"
  by (auto simp: admin_create_def create_document_def split: option.split)

lemma admin_update_tokens_eq: "TOKENS (snd (admin_update name ident payload s)) = TOKENS s"
  by (simp add: admin_update_def Let_def split: option.split)

lemma admin_delete_tokens_eq: "TOKENS (snd (admin_delete name ident s)) = TOKENS s"
  by (simp add: admin_delete_def split: option.split)

lemma set_map_tokens_eq: "TOKENS (snd (set_map payload oid s)) = TOKENS s"
  by (auto simp: set_map_def Let_def create_document_def split: option.split sum.split)

lemma dispatch_tokens_eq: "r \<noteq> R_admin_login \<Longrightarrow> TOKENS (snd (dispatch r req s)) = TOKENS s"
  by (cases r)
     (simp_all add: with_body_tokens_eq admin_create_tokens_eq admin_update_tokens_eq
        admin_delete_tokens_eq set_map_tokens_eq root_def test_database_def get_pois_def
        get_lore_article_def search_lore_def public_get_map_def get_map_def admin_list_def
        admin_list_pois_def admin_create_poi_def admin_update_poi_def admin_delete_poi_def
        admin_list_lore_def admin_create_lore_def admin_update_lore_def admin_delete_lore_def
        admin_list_categories_def admin_create_category_def admin_update_category_def
        admin_delete_category_def split: option.split)

lemma login_tokens:
  "TOKENS (snd (dispatch R_admin_login req s)) = TOKENS s
   \<or> dispatch R_admin_login req s =
       (Ok (BDict [(''token'', VStr (bytes_hex (rq_urandom req)))]),
        s\<lparr>TOKENS := insert (bytes_hex (rq_urandom req)) (TOKENS s)\<rparr>)"
  by (simp add: with_body_def admin_login_def Let_def split: sum.split)

lemma handle_tokens_issued:
  "TOKENS (snd (handle req s)) = TOKENS s
   \<or> find_route (rq_method req) (rq_path req) = Some (False, R_admin_login)
     \<and> handle req s =
       (Ok (BDict [(''token'', VStr (bytes_hex (rq_urandom req)))]),
        s\<lparr>TOKENS := insert (bytes_hex (rq_urandom req)) (TOKENS s)\<rparr>)"
proof (cases "find_route (rq_method req) (rq_path req)")
  case None
  then show ?thesis by (simp add: handle_def)
next
  case (Some gr)
  obtain g r where gr: "gr = (g, r)" by (cases gr)
  show ?thesis
  proof (cases "r = R_admin_login")
    case True
    have "g = False"
      using Some gr True admin_routes
      by (auto simp: find_route_def routes_def split: if_splits)
    then show ?thesis
      using Some gr True login_tokens [of req s]
      by (auto simp: handle_def respond_snd respond_simps split: option.split)
  next
    case False
    then show ?thesis
      using Some gr dispatch_tokens_eq [OF False, of req s]
      by (simp add: handle_def respond_snd split: sum.split option.split)
  qed
qed

lemma route_list_pois:
  "find_route GET [''api'', ''admin'', ''pois''] = Some (True, R_admin_list_pois)"
  by (simp add: find_route_def routes_def)

lemma bytes_hex_abcd: "bytes_hex [0xab, 0xcd] = ''abcd''"
  by (simp add: bytes_hex_def hex_digit_def)

lemma dict_get_Nil: "dict_get [] k = None"
  by (simp add: dict_get_def)

lemma response_dicts_simps:
  "response_dicts (Ok b) = body_dicts b"
  "response_dicts (HTTPException n detail) = []"
  "response_dicts RequestValidationError = []"
  "response_dicts ServerError = []"
  "response_dicts Diagnostic = []"
  "response_dicts NoRoute = []"
  "response_dicts NotModelled = []"
  by (simp_all add: response_dicts_def)

lemma response_dicts_respond:
  "list_all P (response_dicts (fst x)) \<Longrightarrow> list_all P (response_dicts (fst (respond x)))"
  by (cases x) (auto simp: respond_def response_dicts_simps split: response.split)

lemma response_dicts_invalid_body: "response_dicts (invalid_body sch b) = []"
  by (simp add: invalid_body_def response_dicts_simps)

lemma response_dicts_body_model: "body_model sch b = Inl e \<Longrightarrow> response_dicts e = []"
  by (induction sch b rule: body_model.induct)
     (auto simp: response_dicts_simps response_dicts_invalid_body split: option.splits if_splits)

lemma stored_mem:
  "name \<in> set collection_names \<Longrightarrow> d \<in> set (db s name) \<Longrightarrow> doc_id d \<in> set (stored_ids s)"
  by (auto simp: stored_ids_def)

lemma find_one_latest_mem: "find_one_latest c = Some d \<Longrightarrow> d \<in> set c"
  by (induction c arbitrary: d) (auto split: option.splits if_splits)

lemma public_doc:
  "doc_id doc \<in> set (stored_ids s) \<Longrightarrow>
   public_contract s (dict_set ''id'' (VStr (doc_id doc)) (filter (\<lambda>p. fst p \<noteq> ''_id'') flds))"
  by (simp add: public_contract_def returned_document_def dict_get_dict_set dict_get_filter)

lemma public_body_of:
  "name \<in> set collection_names \<Longrightarrow> d \<in> set (db s name) \<Longrightarrow>
   list_all (public_contract s) (body_dicts (body_of (doc_to_public (Some d))))"
  using stored_mem [of name d s]
  by (simp add: body_of_def doc_to_public_def public_doc oid_str_def)

lemma public_body_of_found:
  "name \<in> set collection_names \<Longrightarrow>
   list_all (public_contract s) (body_dicts (body_of (doc_to_public (find_one (db s name) oid))))"
proof (cases "find_one (db s name) oid")
  case None
  then show ?thesis by (simp add: body_of_def doc_to_public_def)
next
  case (Some d)
  assume "name \<in> set collection_names"
  from public_body_of [OF this, of d s] find_one_Some [OF Some] Some show ?thesis by simp
qed

lemma public_poi:
  "p \<in> set (db s ''poi'') \<Longrightarrow> public_contract s (poi_public p)"
  using stored_mem [of "''poi''" p s]
  by (simp add: public_contract_def returned_document_def poi_public_def dict_get_Cons
      dict_get_Nil oid_str_def collection_names_def)

lemma public_lore_hit:
  "r \<in> set (db s ''lorearticle'') \<Longrightarrow> public_contract s (lore_hit r)"
  using stored_mem [of "''lorearticle''" r s]
  by (simp add: public_contract_def returned_document_def lore_hit_def dict_get_Cons
      dict_get_Nil oid_str_def collection_names_def)

lemma public_ack:
  "public_contract s [(''message'', v)]" "public_contract s [(''token'', v)]"
  "public_contract s [(''updated'', v)]" "public_contract s [(''deleted'', v)]"
  by (simp_all add: public_contract_def acknowledgement_def dict_get_Cons dict_get_Nil)

lemma public_with_body:
  assumes "\<And>payload. list_all (public_contract (snd (k payload))) (response_dicts (fst (k payload)))"
  shows "list_all (public_contract (snd (with_body sch req s k)))
           (response_dicts (fst (with_body sch req s k)))"
  using assms
  by (simp add: with_body_def response_dicts_body_model split: sum.split)

lemma public_root: "list_all (public_contract (snd (root s))) (response_dicts (fst (root s)))"
  by (simp add: root_def response_dicts_simps public_ack)

lemma public_get_pois:
  "list_all (public_contract (snd (get_pois s))) (response_dicts (fst (get_pois s)))"
  by (simp add: get_pois_def get_documents_def response_dicts_simps list_all_iff public_poi)

lemma public_get_lore_article:
  "list_all (public_contract (snd (get_lore_article x s)))
     (response_dicts (fst (get_lore_article x s)))"
proof -
  have "public_contract s
      [(''id'', VStr (doc_id d)),
       (''title'', a), (''short_description'', b), (''main_image_url'', c),
       (''content_body'', e)]"
    if "find_one (db s ''lorearticle'') oid = Some d" for d oid a b c e
    using find_one_Some [OF that] stored_mem [of "''lorearticle''" d s]
    by (simp add: public_contract_def returned_document_def dict_get_Cons dict_get_Nil
        collection_names_def)
  then show ?thesis
    by (simp add: get_lore_article_def response_dicts_simps doc_to_public_def
        dict_get_dict_set oid_str_def split: option.split)
qed

lemma public_search_lore:
  "list_all (public_contract (snd (search_lore q s))) (response_dicts (fst (search_lore q s)))"
  by (auto simp: search_lore_def response_dicts_simps list_all_iff public_lore_hit
      dest: in_set_takeD)

lemma public_latest:
  "list_all (public_contract s)
     (response_dicts (case find_one_latest (db s ''mapasset'') of
        None \<Rightarrow> Ok BNull
      | Some doc \<Rightarrow> Ok (body_of (doc_to_public (Some doc)))))"
proof (cases "find_one_latest (db s ''mapasset'')")
  case None
  then show ?thesis by (simp add: response_dicts_simps)
next
  case (Some d)
  from public_body_of [of "''mapasset''" d s] find_one_latest_mem [OF Some] Some
  show ?thesis by (simp add: response_dicts_simps collection_names_def)
qed

lemma public_public_get_map:
  "list_all (public_contract (snd (public_get_map s))) (response_dicts (fst (public_get_map s)))"
  using public_latest [of s]
  by (simp add: public_get_map_def response_dicts_simps split: option.splits)

lemma public_get_map:
  "list_all (public_contract (snd (get_map s))) (response_dicts (fst (get_map s)))"
  using public_latest [of s]
  by (simp add: get_map_def response_dicts_simps split: option.splits)

lemma public_admin_login:
  "list_all (public_contract (snd (admin_login payload u s)))
     (response_dicts (fst (admin_login payload u s)))"
  by (simp add: admin_login_def Let_def response_dicts_simps public_ack)

lemma public_admin_list:
  "name \<in> set collection_names \<Longrightarrow>
   list_all (public_contract (snd (admin_list name s))) (response_dicts (fst (admin_list name s)))"
  using public_body_of [of name _ s]
  by (simp add: admin_list_def get_documents_def response_dicts_simps list_all_iff)

lemma public_admin_create:
  "name \<in> set collection_names \<Longrightarrow>
   list_all (public_contract (snd (admin_create name payload oid s)))
     (response_dicts (fst (admin_create name payload oid s)))"
  using public_body_of_found [of name]
  by (auto simp: admin_create_def response_dicts_simps split: option.split)

lemma public_set_map:
  "list_all (public_contract (snd (set_map payload oid s)))
     (response_dicts (fst (set_map payload oid s)))"
proof -
  have n: "''mapasset'' \<in> set collection_names"
    by (simp add: collection_names_def)
  have e: "response_dicts e = []" if "next_version v = Inl e" for v e
    using that by (cases v) (auto simp: response_dicts_simps)
  show ?thesis
    using public_body_of_found [OF n] e
    by (auto simp: set_map_def Let_def response_dicts_simps split: option.split sum.split)
qed

lemma public_admin_update:
  "name \<in> set collection_names \<Longrightarrow>
   list_all (public_contract (snd (admin_update name ident payload s)))
     (response_dicts (fst (admin_update name ident payload s)))"
proof -
  assume n: "name \<in> set collection_names"
  have "list_all (public_contract (s\<lparr>db := (db s)(name := update_one (db s name) oid upd)\<rparr>))
      (body_dicts (body_of (doc_to_public (find_one (update_one (db s name) oid upd) oid))))"
    for oid upd
    using public_body_of_found [OF n, of "s\<lparr>db := (db s)(name := update_one (db s name) oid upd)\<rparr>" oid]
    by simp
  then show ?thesis
    by (simp add: admin_update_def Let_def response_dicts_simps public_ack split: option.split)
qed

lemma public_admin_delete:
  "list_all (public_contract (snd (admin_delete name ident s)))
     (response_dicts (fst (admin_delete name ident s)))"
  by (simp add: admin_delete_def response_dicts_simps public_ack split: option.split)

lemma public_dispatch:
  "list_all (public_contract (snd (dispatch r req s))) (response_dicts (fst (dispatch r req s)))"
  by (cases r)
     (simp_all add: public_with_body public_root public_get_pois public_get_lore_article
        public_search_lore public_public_get_map public_get_map public_admin_login
        public_set_map public_admin_list public_admin_create public_admin_update
        public_admin_delete admin_list_pois_def admin_create_poi_def admin_update_poi_def
        admin_delete_poi_def admin_list_lore_def admin_create_lore_def admin_update_lore_def
        admin_delete_lore_def admin_list_categories_def admin_create_category_def
        admin_update_category_def admin_delete_category_def test_database_def
        response_dicts_simps collection_names_def split: option.split)

lemma public_handle:
  "list_all (public_contract (snd (handle req s))) (response_dicts (fst (handle req s)))"
proof (cases "find_route (rq_method req) (rq_path req)")
  case None
  then show ?thesis by (simp add: handle_def response_dicts_simps)
next
  case (Some gr)
  obtain g r where gr: "gr = (g, r)" by (cases gr)
  have be: "response_dicts e = []" if "body_error r req = Some e" for e
    using that
    by (auto simp: body_error_def response_dicts_simps split: if_splits request_body.splits)
  let ?x = "if g then (case require_admin (rq_token req) s of Inl e \<Rightarrow> (e, s)
                       | Inr ok \<Rightarrow> dispatch r req s)
            else dispatch r req s"
  have "list_all (public_contract (snd ?x)) (response_dicts (fst ?x))"
    using public_dispatch [of r req s]
    by (auto simp: require_admin_def response_dicts_simps split: option.split)
  from response_dicts_respond [OF this]
  have "list_all (public_contract (snd (respond ?x))) (response_dicts (fst (respond ?x)))"
    by (simp add: respond_snd)
  then show ?thesis
    using Some gr be
    by (cases "body_error r req") (simp_all add: handle_def)
qed

lemma route_get_pois: "find_route GET [''api'', ''pois''] = Some (False, R_get_pois)"
  by (simp add: find_route_def routes_def)

section \<open>The claims\<close>

text \<open>
  C6. The claim: \<open>GET /api/lore/search?q=\<close> returns at most 20 results of shape
  \<open>{id, title, short_description}\<close>, the lore articles whose title or short description
  contains \<open>q\<close> without regard to case. The program does not do that: the route
  \<open>/api/lore/{article_id}\<close> is declared before \<open>/api/lore/search\<close>, so every such request
  is answered by \<open>get_lore_article\<close> with \<open>article_id = "search"\<close>, which is not an
  ObjectId, and the response is 400 whatever the query and the store are.
\<close>

theorem C6_search_route_shadowed:
  "handle \<lparr>rq_method = GET, rq_path = [''api'', ''lore'', ''search''], rq_token = tok,
            rq_q = Some q, rq_body = b, rq_urandom = u, rq_new_oid = n\<rparr> s =
     (HTTPException 400 ''Invalid article id'', s)"
  by (simp add: handle_def find_route_def routes_def path_param_def get_lore_article_def
      ObjectId_def body_error_def respond_simps)


text \<open>
  C8. For a well-formed id and a valid token, DELETE on \<open>/api/admin/pois/{id}\<close>, on
  \<open>/api/admin/lore/{id}\<close> and on \<open>/api/admin/categories/{id}\<close> answers
  \<open>{deleted: true}\<close> whether or not a document with that id exists; when none exists the
  state is unchanged; and the same request on the resulting state gives the same
  response and the same state. Ids are unique within a collection, as the store's index
  on \<open>_id\<close> guarantees.
\<close>

theorem C8_delete_idempotent:
  assumes "rq_method req = DELETE" and "rq_path req = [''api'', ''admin'', seg, ident]"
    and "(seg, name) \<in> set crud_collections"
    and "rq_token req = Some t" and "t \<in> TOKENS s"
    and "ObjectId ident = Some oid"
    and "distinct (map doc_id (db s name))"
  shows "fst (handle req s) = Ok (BDict [(''deleted'', VBool True)])
       \<and> snd (handle req s) = s\<lparr>db := (db s)(name := delete_one (db s name) oid)\<rparr>
       \<and> (oid \<notin> doc_id ` set (db s name) \<longrightarrow> snd (handle req s) = s)
       \<and> handle req (snd (handle req s)) = handle req s"
proof -
  let ?s' = "s\<lparr>db := (db s)(name := delete_one (db s name) oid)\<rparr>"
  have ne: "ident \<noteq> []" using assms(6) by (rule ObjectId_nonempty)
  have tok: "require_admin (rq_token req) s = Inr True"
    using assms(4,5) by (simp add: require_admin_def)
  have tok': "require_admin (rq_token req) ?s' = Inr True"
    using assms(4,5) by (simp add: require_admin_def)
  have h: "handle req s = (Ok (BDict [(''deleted'', VBool True)]), ?s')"
    using handle_delete [OF assms(1,2,3) ne, of s] tok assms(6)
    by (simp add: admin_delete_def respond_simps)
  have h': "handle req ?s' = (Ok (BDict [(''deleted'', VBool True)]), ?s')"
    using handle_delete [OF assms(1,2,3) ne, of ?s'] tok' assms(6,7)
    by (simp add: admin_delete_def delete_one_twice respond_simps)
  show ?thesis
    using h h' by (simp add: delete_one_absent)
qed

theorem C8_delete_idempotent_witness:
  "ObjectId ''aaaaaaaaaaaaaaaaaaaaaaaa'' = Some ''aaaaaaaaaaaaaaaaaaaaaaaa''
   \<and> ''00ff'' \<in> TOKENS demo_state
   \<and> distinct (map doc_id (db demo_state ''poi''))
   \<and> fst (handle (request DELETE [''api'', ''admin'', ''pois'', ''aaaaaaaaaaaaaaaaaaaaaaaa'']
              (Some ''00ff'') None) demo_state) = Ok (BDict [(''deleted'', VBool True)])
   \<and> db (snd (handle (request DELETE [''api'', ''admin'', ''pois'', ''aaaaaaaaaaaaaaaaaaaaaaaa'']
              (Some ''00ff'') None) demo_state)) ''poi'' = []"
proof -
  let ?req = "request DELETE [''api'', ''admin'', ''pois'', ''aaaaaaaaaaaaaaaaaaaaaaaa'']
                (Some ''00ff'') None"
  have oid: "ObjectId ''aaaaaaaaaaaaaaaaaaaaaaaa'' = Some ''aaaaaaaaaaaaaaaaaaaaaaaa''"
    by (simp add: ObjectId_valid valid_oid_def)
  have tok: "''00ff'' \<in> TOKENS demo_state"
    by (simp add: demo_state_def)
  have dist: "distinct (map doc_id (db demo_state ''poi''))"
    by (simp add: demo_state_def)
  have "(''pois'', ''poi'') \<in> set crud_collections"
    by (simp add: crud_collections_def)
  from C8_delete_idempotent [of ?req "''pois''" "''aaaaaaaaaaaaaaaaaaaaaaaa''" "''poi''"
      "''00ff''" demo_state "''aaaaaaaaaaaaaaaaaaaaaaaa''", OF _ _ this _ tok oid dist]
  have "fst (handle ?req demo_state) = Ok (BDict [(''deleted'', VBool True)])"
    and "snd (handle ?req demo_state) =
      demo_state\<lparr>db := (db demo_state)
        (''poi'' := delete_one (db demo_state ''poi'') ''aaaaaaaaaaaaaaaaaaaaaaaa'')\<rparr>"
    by (simp_all add: request_def)
  then show ?thesis
    using oid tok dist by (simp add: demo_state_def)
qed





text \<open>
  C5. A request \<open>GET /api/lore/{id}\<close> is answered as follows, the state being unchanged
  in each case. When \<open>ObjectId\<close> refuses the id, that is when the id does not have 24
  characters or \<open>bytes.fromhex\<close> does not read it, the response is the client error 400
  ``Invalid article id''. When \<open>ObjectId\<close> accepts the id and no lore article has it,
  the response is 404 ``Article not found''. When the article exists, the response is
  the dictionary with exactly the keys \<open>id\<close>, \<open>title\<close>, \<open>short_description\<close>,
  \<open>main_image_url\<close> and \<open>content_body\<close>: \<open>id\<close> is the string of the ObjectId, and each
  other key has the value stored in the article, or null when the article does not have
  the field; it is 500 when one of these values is a float that is not finite, which
  cannot be rendered. An id of 24 hexadecimal digits is accepted and stands for itself
  in lower case. An id that is accepted without being 24 hexadecimal digits has
  whitespace in it and stands for fewer than 12 bytes: the response is 404 when the ids
  of the stored articles have 12 bytes, as the ids that the driver generates have.
\<close>

theorem C5_get_lore_article:
  assumes "rq_method req = GET" and "rq_path req = [''api'', ''lore'', x]" and "x \<noteq> []"
  shows "(length x \<noteq> 24 \<or> fromhex x = None \<longrightarrow>
            handle req s = (HTTPException 400 ''Invalid article id'', s))
       \<and> (\<forall>oid. length x = 24 \<and> fromhex x = Some oid
              \<and> oid \<notin> doc_id ` set (db s ''lorearticle'') \<longrightarrow>
            handle req s = (HTTPException 404 ''Article not found'', s))
       \<and> (\<forall>oid d. length x = 24 \<and> fromhex x = Some oid
              \<and> find_one (db s ''lorearticle'') oid = Some d \<longrightarrow>
            handle req s =
              (if list_all finite_val
                    [get_or_none (doc_fields d) ''title'',
                     get_or_none (doc_fields d) ''short_description'',
                     get_or_none (doc_fields d) ''main_image_url'',
                     get_or_none (doc_fields d) ''content_body'']
               then Ok (BDict
                 [(''id'', VStr oid),
                  (''title'', get_or_none (doc_fields d) ''title''),
                  (''short_description'', get_or_none (doc_fields d) ''short_description''),
                  (''main_image_url'', get_or_none (doc_fields d) ''main_image_url''),
                  (''content_body'', get_or_none (doc_fields d) ''content_body'')])
               else ServerError, s))
       \<and> (length x = 24 \<and> list_all is_hex x \<longrightarrow> fromhex x = Some (map hex_lower x))
       \<and> (\<forall>oid. length x = 24 \<and> fromhex x = Some oid \<and> \<not> list_all is_hex x
              \<and> list_all (\<lambda>d. length (doc_id d) = 24) (db s ''lorearticle'') \<longrightarrow>
            handle req s = (HTTPException 404 ''Article not found'', s))"
proof -
  note h = handle_get_lore [OF assms, of s]
  have bad: "handle req s = (HTTPException 400 ''Invalid article id'', s)"
    if "length x \<noteq> 24 \<or> fromhex x = None"
    using get_lore_article_invalid [OF that, of s] by (simp add: h respond_simps)
  have missing: "handle req s = (HTTPException 404 ''Article not found'', s)"
    if "length x = 24" and "fromhex x = Some oid"
      and "oid \<notin> doc_id ` set (db s ''lorearticle'')" for oid
    using get_lore_article_missing [OF that] by (simp add: h respond_simps)
  have found: "handle req s =
      (if list_all finite_val
            [get_or_none (doc_fields d) ''title'',
             get_or_none (doc_fields d) ''short_description'',
             get_or_none (doc_fields d) ''main_image_url'',
             get_or_none (doc_fields d) ''content_body'']
       then Ok (BDict
         [(''id'', VStr oid),
          (''title'', get_or_none (doc_fields d) ''title''),
          (''short_description'', get_or_none (doc_fields d) ''short_description''),
          (''main_image_url'', get_or_none (doc_fields d) ''main_image_url''),
          (''content_body'', get_or_none (doc_fields d) ''content_body'')])
       else ServerError, s)"
    if "length x = 24" and "fromhex x = Some oid"
      and "find_one (db s ''lorearticle'') oid = Some d" for oid d
    using get_lore_article_found [OF that] by (simp add: h respond_def)
  have hex: "fromhex x = Some (map hex_lower x)" if "length x = 24" and "list_all is_hex x"
    using fromhex_hex [OF that(2)] that(1) by simp
  have spaced: "handle req s = (HTTPException 404 ''Article not found'', s)"
    if "length x = 24" and "fromhex x = Some oid" and "\<not> list_all is_hex x"
      and "list_all (\<lambda>d. length (doc_id d) = 24) (db s ''lorearticle'')" for oid
  proof -
    have "length oid < 24"
      using fromhex_short [OF that(2,3)] that(1) by simp
    then have "oid \<notin> doc_id ` set (db s ''lorearticle'')"
      using that(4) by (auto simp: list_all_iff)
    from missing [OF that(1,2) this] show ?thesis .
  qed
  show ?thesis
    using bad missing found hex spaced by blast
qed

theorem C5_get_lore_article_witness:
  "handle (request GET [''api'', ''lore'', ''not-an-id''] None None) demo_state =
     (HTTPException 400 ''Invalid article id'', demo_state)
   \<and> handle (request GET [''api'', ''lore'', ''ffffffffffffffffffffffff''] None None) demo_state =
     (HTTPException 404 ''Article not found'', demo_state)
   \<and> handle (request GET [''api'', ''lore'', ''BBBBBBBBBBBBBBBBBBBBBBBB''] None None) demo_state =
     (Ok (BDict
        [(''id'', VStr ''bbbbbbbbbbbbbbbbbbbbbbbb''),
         (''title'', VStr ''The Dark Forest''),
         (''short_description'', VStr ''Trees''),
         (''main_image_url'', VNone),
         (''content_body'', VStr ''<p>Dark</p>'')]), demo_state)"
proof -
  have a: "handle (request GET [''api'', ''lore'', ''not-an-id''] None None) demo_state =
     (HTTPException 400 ''Invalid article id'', demo_state)"
    using C5_get_lore_article [of "request GET [''api'', ''lore'', ''not-an-id''] None None"
        "''not-an-id''" demo_state]
    by (simp add: request_def)
  have f: "fromhex ''ffffffffffffffffffffffff'' = Some ''ffffffffffffffffffffffff''"
    by (simp add: is_hex_def is_space_def hex_lower_def)
  have b: "handle (request GET [''api'', ''lore'', ''ffffffffffffffffffffffff''] None None)
      demo_state = (HTTPException 404 ''Article not found'', demo_state)"
    using C5_get_lore_article [of
        "request GET [''api'', ''lore'', ''ffffffffffffffffffffffff''] None None"
        "''ffffffffffffffffffffffff''" demo_state]
    by (simp add: request_def demo_lore f del: fromhex.simps)
  have g: "fromhex ''BBBBBBBBBBBBBBBBBBBBBBBB'' = Some ''bbbbbbbbbbbbbbbbbbbbbbbb''"
    by (simp add: is_hex_def is_space_def hex_lower_def)
  have c: "handle (request GET [''api'', ''lore'', ''BBBBBBBBBBBBBBBBBBBBBBBB''] None None)
      demo_state =
     (Ok (BDict
        [(''id'', VStr ''bbbbbbbbbbbbbbbbbbbbbbbb''),
         (''title'', VStr ''The Dark Forest''),
         (''short_description'', VStr ''Trees''),
         (''main_image_url'', VNone),
         (''content_body'', VStr ''<p>Dark</p>'')]), demo_state)"
    using C5_get_lore_article [of
        "request GET [''api'', ''lore'', ''BBBBBBBBBBBBBBBBBBBBBBBB''] None None"
        "''BBBBBBBBBBBBBBBBBBBBBBBB''" demo_state]
    by (simp add: request_def demo_lore g find_one_def get_or_none_def dict_get_def
        del: fromhex.simps)
  from a b c show ?thesis by simp
qed

text \<open>
  C5, the claim as it was made: an id that is not a well-formed object id is answered
  400. The id \<open>aa aa aa aa aa aa aa aa \<close>, eight pairs of digits each followed by a
  space, has 24 characters and is not 24 hexadecimal digits, but \<open>bytes.fromhex\<close> reads
  it, so \<open>ObjectId\<close> accepts it, the store is asked for it, and the response is 404.
\<close>

theorem C5_spaced_id_not_rejected:
  "length ''aa aa aa aa aa aa aa aa '' = 24
   \<and> \<not> list_all is_hex ''aa aa aa aa aa aa aa aa ''
   \<and> ObjectId ''aa aa aa aa aa aa aa aa '' = Some ''aaaaaaaaaaaaaaaa''
   \<and> handle (request GET [''api'', ''lore'', ''aa aa aa aa aa aa aa aa ''] None None) demo_state =
       (HTTPException 404 ''Article not found'', demo_state)"
proof -
  have f: "fromhex ''aa aa aa aa aa aa aa aa '' = Some ''aaaaaaaaaaaaaaaa''"
    by (simp add: is_hex_def is_space_def hex_lower_def)
  have "get_lore_article ''aa aa aa aa aa aa aa aa '' demo_state =
      (HTTPException 404 ''Article not found'', demo_state)"
    by (rule get_lore_article_missing [OF _ f]) (simp_all add: demo_lore)
  then have "handle (request GET [''api'', ''lore'', ''aa aa aa aa aa aa aa aa ''] None None)
      demo_state = (HTTPException 404 ''Article not found'', demo_state)"
    using handle_get_lore [of "request GET [''api'', ''lore'', ''aa aa aa aa aa aa aa aa ''] None None"
        "''aa aa aa aa aa aa aa aa ''" demo_state]
    by (simp add: request_def respond_simps)
  then show ?thesis
    using f by (simp add: ObjectId_def is_hex_def)
qed




text \<open>
  C1. The routes declared with the dependency \<open>require_admin\<close> are exactly the routes
  under \<open>/api/admin\<close> other than the login route. A request for such a route whose token
  is absent or is not in \<open>TOKENS\<close> never reaches the handler and leaves the state
  unchanged. It is answered 401 ``Unauthorized'', with one exception: when the route
  takes a body, the framework reads the body before it runs the guard, so a body that
  cannot be read is answered 400 and a body that is not JSON is answered 422, whatever
  the token. With a token of \<open>TOKENS\<close>, and a body that can be read, the guard accepts
  and the handler of the route runs. A login with the configured username and password
  returns a token, adds it to \<open>TOKENS\<close>, and the guard accepts this token at once and
  after any further sequence of requests. \<open>TOKENS\<close> holds the tokens issued by login
  and nothing else: a request either leaves the set as it is or is a successful login,
  which adds the token it returns. No request removes a token: a token of \<open>TOKENS\<close> is
  still there, and accepted by the guard, after any request and any sequence of
  requests.
\<close>

theorem C1_admin_guard:
  "list_all (\<lambda>(m, p, guarded, r).
       guarded = (take 2 p = [Lit ''api'', Lit ''admin''] \<and> r \<noteq> R_admin_login)) routes
   \<and> (find_route (rq_method req) (rq_path req) = Some (True, r)
        \<and> (rq_token req = None \<or> the (rq_token req) \<notin> TOKENS s)
      \<longrightarrow> handle req s =
            (if takes_body r \<and> rq_body req = Unreadable
             then HTTPException 400 ''There was an error parsing the body''
             else if takes_body r \<and> rq_body req = InvalidJSON
             then RequestValidationError
             else HTTPException 401 ''Unauthorized'', s))
   \<and> (find_route (rq_method req) (rq_path req) = Some (True, r)
        \<and> rq_token req = Some t \<and> t \<in> TOKENS s
        \<and> \<not> (takes_body r \<and> (rq_body req = Unreadable \<or> rq_body req = InvalidJSON))
      \<longrightarrow> require_admin (rq_token req) s = Inr True
          \<and> handle req s = respond (dispatch r req s))
   \<and> (rq_method req = POST \<and> rq_path req = [''api'', ''admin'', ''login'']
        \<and> rq_body req = JSONBody (VDict b)
        \<and> dict_get b ''username'' = Some (VStr (ADMIN_USERNAME s))
        \<and> dict_get b ''password'' = Some (VStr (ADMIN_PASSWORD s))
      \<longrightarrow> handle req s =
            (Ok (BDict [(''token'', VStr (bytes_hex (rq_urandom req)))]),
             s\<lparr>TOKENS := insert (bytes_hex (rq_urandom req)) (TOKENS s)\<rparr>)
          \<and> require_admin (Some (bytes_hex (rq_urandom req))) (snd (handle req s)) = Inr True
          \<and> require_admin (Some (bytes_hex (rq_urandom req))) (run reqs (snd (handle req s)))
              = Inr True)
   \<and> (TOKENS (snd (handle req s)) = TOKENS s
      \<or> find_route (rq_method req) (rq_path req) = Some (False, R_admin_login)
        \<and> handle req s =
            (Ok (BDict [(''token'', VStr (bytes_hex (rq_urandom req)))]),
             s\<lparr>TOKENS := insert (bytes_hex (rq_urandom req)) (TOKENS s)\<rparr>))
   \<and> (t \<in> TOKENS s
      \<longrightarrow> t \<in> TOKENS (snd (handle req s)) \<and> t \<in> TOKENS (run reqs s)
          \<and> require_admin (Some t) (run reqs s) = Inr True)"
proof -
  have be: "body_error r req =
      (if takes_body r \<and> rq_body req = Unreadable
       then Some (HTTPException 400 ''There was an error parsing the body'')
       else if takes_body r \<and> rq_body req = InvalidJSON then Some RequestValidationError
       else None)"
    by (cases "rq_body req") (simp_all add: body_error_def)
  have unauth: "handle req s =
            (if takes_body r \<and> rq_body req = Unreadable
             then HTTPException 400 ''There was an error parsing the body''
             else if takes_body r \<and> rq_body req = InvalidJSON
             then RequestValidationError
             else HTTPException 401 ''Unauthorized'', s)"
    if "find_route (rq_method req) (rq_path req) = Some (True, r)"
      and "rq_token req = None \<or> the (rq_token req) \<notin> TOKENS s"
    using that by (auto simp: handle_def be require_admin_def respond_simps split: option.split)
  have auth: "require_admin (rq_token req) s = Inr True \<and> handle req s = respond (dispatch r req s)"
    if "find_route (rq_method req) (rq_path req) = Some (True, r)"
      and "rq_token req = Some t" and "t \<in> TOKENS s"
      and "\<not> (takes_body r \<and> (rq_body req = Unreadable \<or> rq_body req = InvalidJSON))"
    using that by (auto simp: handle_def be require_admin_def)
  have login: "handle req s =
            (Ok (BDict [(''token'', VStr (bytes_hex (rq_urandom req)))]),
             s\<lparr>TOKENS := insert (bytes_hex (rq_urandom req)) (TOKENS s)\<rparr>)"
    if "rq_method req = POST" and "rq_path req = [''api'', ''admin'', ''login'']"
      and "rq_body req = JSONBody (VDict b)"
      and "dict_get b ''username'' = Some (VStr (ADMIN_USERNAME s))"
      and "dict_get b ''password'' = Some (VStr (ADMIN_PASSWORD s))"
    using that
    by (simp add: handle_def route_login body_error_def with_body_def AuthRequest_def
        validate_field_def admin_login_def Let_def dict_get_Cons respond_simps)
  have kept: "require_admin (Some u) (run reqs s') = Inr True" if "u \<in> TOKENS s'" for u s'
    using run_tokens [OF that, of reqs] by (simp add: require_admin_def)
  have "require_admin (Some (bytes_hex (rq_urandom req))) (snd (handle req s)) = Inr True
      \<and> require_admin (Some (bytes_hex (rq_urandom req))) (run reqs (snd (handle req s)))
          = Inr True"
    if "handle req s =
            (Ok (BDict [(''token'', VStr (bytes_hex (rq_urandom req)))]),
             s\<lparr>TOKENS := insert (bytes_hex (rq_urandom req)) (TOKENS s)\<rparr>)"
    using that kept [of "bytes_hex (rq_urandom req)" "snd (handle req s)"]
    by (simp add: require_admin_def)
  with login have login': "rq_method req = POST \<and> rq_path req = [''api'', ''admin'', ''login'']
        \<and> rq_body req = JSONBody (VDict b)
        \<and> dict_get b ''username'' = Some (VStr (ADMIN_USERNAME s))
        \<and> dict_get b ''password'' = Some (VStr (ADMIN_PASSWORD s))
      \<longrightarrow> handle req s =
            (Ok (BDict [(''token'', VStr (bytes_hex (rq_urandom req)))]),
             s\<lparr>TOKENS := insert (bytes_hex (rq_urandom req)) (TOKENS s)\<rparr>)
          \<and> require_admin (Some (bytes_hex (rq_urandom req))) (snd (handle req s)) = Inr True
          \<and> require_admin (Some (bytes_hex (rq_urandom req))) (run reqs (snd (handle req s)))
              = Inr True"
    by blast
  have stays: "t \<in> TOKENS (snd (handle req s)) \<and> t \<in> TOKENS (run reqs s)
          \<and> require_admin (Some t) (run reqs s) = Inr True" if "t \<in> TOKENS s"
    using that handle_tokens [OF that, of req] run_tokens [OF that, of reqs] kept [OF that]
    by simp
  from admin_routes unauth auth login' handle_tokens_issued [of req s] stays
  show ?thesis by blast
qed

theorem C1_admin_guard_witness:
  "handle (request GET [''api'', ''admin'', ''pois''] None None) demo_state =
     (HTTPException 401 ''Unauthorized'', demo_state)
   \<and> handle (request GET [''api'', ''admin'', ''pois''] (Some ''abcd'') None) demo_state =
     (HTTPException 401 ''Unauthorized'', demo_state)
   \<and> handle ((request POST [''api'', ''admin'', ''login''] None
          (Some [(''username'', VStr ''admin''), (''password'', VStr ''changeme'')]))
          \<lparr>rq_urandom := [0xab, 0xcd]\<rparr>) demo_state =
     (Ok (BDict [(''token'', VStr ''abcd'')]),
      demo_state\<lparr>TOKENS := insert ''abcd'' (TOKENS demo_state)\<rparr>)
   \<and> require_admin (Some ''abcd'')
       (run [request DELETE [''api'', ''admin'', ''pois'', ''aaaaaaaaaaaaaaaaaaaaaaaa'']
               (Some ''abcd'') None,
             request GET [''api'', ''map''] None None]
          (snd (handle ((request POST [''api'', ''admin'', ''login''] None
              (Some [(''username'', VStr ''admin''), (''password'', VStr ''changeme'')]))
              \<lparr>rq_urandom := [0xab, 0xcd]\<rparr>) demo_state))) = Inr True
   \<and> ''00ff'' \<in> TOKENS
       (run [request DELETE [''api'', ''admin'', ''pois'', ''aaaaaaaaaaaaaaaaaaaaaaaa'']
               (Some ''00ff'') None,
             request GET [''api'', ''map''] None None] demo_state)"
proof -
  have creds: "ADMIN_USERNAME demo_state = ''admin''" "ADMIN_PASSWORD demo_state = ''changeme''"
    by (simp_all add: demo_state_def)
  have a: "handle (request GET [''api'', ''admin'', ''pois''] None None) demo_state =
     (HTTPException 401 ''Unauthorized'', demo_state)"
    using C1_admin_guard [THEN conjunct2, THEN conjunct1, rule_format,
          where r = R_admin_list_pois and s = demo_state
            and req = "request GET [''api'', ''admin'', ''pois''] None None"]
    by (simp add: request_def route_list_pois)
  have b: "handle (request GET [''api'', ''admin'', ''pois''] (Some ''abcd'') None) demo_state =
     (HTTPException 401 ''Unauthorized'', demo_state)"
    using C1_admin_guard [THEN conjunct2, THEN conjunct1, rule_format,
          where r = R_admin_list_pois and s = demo_state
            and req = "request GET [''api'', ''admin'', ''pois''] (Some ''abcd'') None"]
    by (simp add: request_def route_list_pois demo_tokens)
  note login = C1_admin_guard [THEN conjunct2, THEN conjunct2, THEN conjunct2, THEN conjunct1,
      rule_format,
      where req = "(request POST [''api'', ''admin'', ''login''] None
          (Some [(''username'', VStr ''admin''), (''password'', VStr ''changeme'')]))
          \<lparr>rq_urandom := [0xab, 0xcd]\<rparr>"
        and s = demo_state
        and b = "[(''username'', VStr ''admin''), (''password'', VStr ''changeme'')]"
        and reqs = "[request DELETE [''api'', ''admin'', ''pois'', ''aaaaaaaaaaaaaaaaaaaaaaaa'']
               (Some ''abcd'') None,
             request GET [''api'', ''map''] None None]"]
  have pre: "rq_method ((request POST [''api'', ''admin'', ''login''] None
          (Some [(''username'', VStr ''admin''), (''password'', VStr ''changeme'')]))
          \<lparr>rq_urandom := [0xab, 0xcd]\<rparr>) = POST \<and>
    rq_path ((request POST [''api'', ''admin'', ''login''] None
          (Some [(''username'', VStr ''admin''), (''password'', VStr ''changeme'')]))
          \<lparr>rq_urandom := [0xab, 0xcd]\<rparr>) = [''api'', ''admin'', ''login''] \<and>
    rq_body ((request POST [''api'', ''admin'', ''login''] None
          (Some [(''username'', VStr ''admin''), (''password'', VStr ''changeme'')]))
          \<lparr>rq_urandom := [0xab, 0xcd]\<rparr>) =
      JSONBody (VDict [(''username'', VStr ''admin''), (''password'', VStr ''changeme'')]) \<and>
    dict_get [(''username'', VStr ''admin''), (''password'', VStr ''changeme'')] ''username'' =
      Some (VStr (ADMIN_USERNAME demo_state)) \<and>
    dict_get [(''username'', VStr ''admin''), (''password'', VStr ''changeme'')] ''password'' =
      Some (VStr (ADMIN_PASSWORD demo_state))"
    by (simp add: request_def creds dict_get_Cons)
  have ur: "bytes_hex (rq_urandom ((request POST [''api'', ''admin'', ''login''] None
          (Some [(''username'', VStr ''admin''), (''password'', VStr ''changeme'')]))
          \<lparr>rq_urandom := [0xab, 0xcd]\<rparr>)) = ''abcd''"
    by (simp add: bytes_hex_abcd)
  from login [OF pre] have c: "handle ((request POST [''api'', ''admin'', ''login''] None
          (Some [(''username'', VStr ''admin''), (''password'', VStr ''changeme'')]))
          \<lparr>rq_urandom := [0xab, 0xcd]\<rparr>) demo_state =
     (Ok (BDict [(''token'', VStr ''abcd'')]),
      demo_state\<lparr>TOKENS := insert ''abcd'' (TOKENS demo_state)\<rparr>)
   \<and> require_admin (Some ''abcd'')
       (run [request DELETE [''api'', ''admin'', ''pois'', ''aaaaaaaaaaaaaaaaaaaaaaaa'']
               (Some ''abcd'') None,
             request GET [''api'', ''map''] None None]
          (snd (handle ((request POST [''api'', ''admin'', ''login''] None
              (Some [(''username'', VStr ''admin''), (''password'', VStr ''changeme'')]))
              \<lparr>rq_urandom := [0xab, 0xcd]\<rparr>) demo_state))) = Inr True"
    unfolding ur by blast
  have d: "''00ff'' \<in> TOKENS
       (run [request DELETE [''api'', ''admin'', ''pois'', ''aaaaaaaaaaaaaaaaaaaaaaaa'']
               (Some ''00ff'') None,
             request GET [''api'', ''map''] None None] demo_state)"
    using C1_admin_guard [THEN conjunct2, THEN conjunct2, THEN conjunct2, THEN conjunct2,
        THEN conjunct2, rule_format, OF demo_token]
    by blast
  from a b c d show ?thesis by blast
qed

text \<open>
  C1, the claim as it was made: every request for an admin route without an issued
  token fails with 401. A \<open>POST /api/admin/pois\<close> with no token and a body that is not
  JSON is answered 422: the body is decoded before the guard is run.
\<close>

theorem C1_invalid_json_before_guard:
  "find_route POST [''api'', ''admin'', ''pois''] = Some (True, R_admin_create_poi)
   \<and> handle \<lparr>rq_method = POST, rq_path = [''api'', ''admin'', ''pois''], rq_token = None,
        rq_q = None, rq_body = InvalidJSON, rq_urandom = [],
        rq_new_oid = ''eeeeeeeeeeeeeeeeeeeeeeee''\<rparr> demo_state =
       (RequestValidationError, demo_state)
   \<and> status_code RequestValidationError = Some 422"
  by (simp add: handle_def find_route_def routes_def body_error_def)

text \<open>
  C9. Every dictionary in the body of the response to any request, in any state, has no
  key \<open>_id\<close>; it is one of the four acknowledgements (\<open>message\<close>, \<open>token\<close>, \<open>updated\<close>,
  \<open>deleted\<close>) or it has, under the key \<open>id\<close>, the string of the ObjectId of a document
  that is in the store after the request. The three functions that build a returned
  document, \<open>doc_to_public\<close>, the entry of the POI list and the entry of a search
  result, give no key \<open>_id\<close> and put under \<open>id\<close> the string of the document's own
  ObjectId.
\<close>

theorem C9_internal_id_never_exposed:
  "list_all (public_contract (snd (handle req s))) (response_dicts (fst (handle req s)))
   \<and> dict_get (the (doc_to_public (Some doc))) ''_id'' = None
   \<and> dict_get (the (doc_to_public (Some doc))) ''id'' = Some (VStr (doc_id doc))
   \<and> dict_get (poi_public doc) ''_id'' = None
   \<and> dict_get (poi_public doc) ''id'' = Some (VStr (doc_id doc))
   \<and> dict_get (lore_hit doc) ''_id'' = None
   \<and> dict_get (lore_hit doc) ''id'' = Some (VStr (doc_id doc))"
proof -
  have "dict_get (the (doc_to_public (Some doc))) ''_id'' = None"
    and "dict_get (the (doc_to_public (Some doc))) ''id'' = Some (VStr (doc_id doc))"
    by (simp_all add: doc_to_public_def dict_get_dict_set dict_get_filter oid_str_def)
  moreover have "dict_get (poi_public doc) ''_id'' = None"
    and "dict_get (poi_public doc) ''id'' = Some (VStr (doc_id doc))"
    by (simp_all add: poi_public_def dict_get_Cons dict_get_Nil oid_str_def)
  moreover have "dict_get (lore_hit doc) ''_id'' = None"
    and "dict_get (lore_hit doc) ''id'' = Some (VStr (doc_id doc))"
    by (simp_all add: lore_hit_def dict_get_Cons dict_get_Nil oid_str_def)
  ultimately show ?thesis
    using public_handle [of req s] by simp
qed

theorem C9_internal_id_never_exposed_witness:
  "handle (request GET [''api'', ''pois''] None None) demo_state =
     (Ok (BList [BDict
        [(''id'', VStr ''aaaaaaaaaaaaaaaaaaaaaaaa''), (''name'', VStr ''Gate''),
         (''x_coordinate'', VFloat (1 / 2)), (''y_coordinate'', VFloat (1 / 4)),
         (''lore_article_id'', VNone), (''icon_type'', VStr ''city'')]]), demo_state)
   \<and> public_contract demo_state
        [(''id'', VStr ''aaaaaaaaaaaaaaaaaaaaaaaa''), (''name'', VStr ''Gate''),
         (''x_coordinate'', VFloat (1 / 2)), (''y_coordinate'', VFloat (1 / 4)),
         (''lore_article_id'', VNone), (''icon_type'', VStr ''city'')]
   \<and> ''aaaaaaaaaaaaaaaaaaaaaaaa'' \<in> set (stored_ids demo_state)"
proof -
  let ?req = "request GET [''api'', ''pois''] None None"
  let ?d = "[(''id'', VStr ''aaaaaaaaaaaaaaaaaaaaaaaa''), (''name'', VStr ''Gate''),
         (''x_coordinate'', VFloat (1 / 2)), (''y_coordinate'', VFloat (1 / 4)),
         (''lore_article_id'', VNone), (''icon_type'', VStr ''city'')]"
  have h: "handle ?req demo_state = (Ok (BList [BDict ?d]), demo_state)"
    by (simp add: handle_def request_def route_get_pois body_error_def get_pois_def
        get_documents_def demo_poi poi_public_def get_or_none_def get_or_default_def
        dict_get_def oid_str_def respond_def)
  have c: "public_contract demo_state ?d"
    using C9_internal_id_never_exposed [of ?req demo_state]
    by (simp add: h response_dicts_simps)
  then have "''aaaaaaaaaaaaaaaaaaaaaaaa'' \<in> set (stored_ids demo_state)"
    by (simp add: public_contract_def returned_document_def acknowledgement_def dict_get_def)
  with h c show ?thesis by simp
qed

end
